theory Spec2Isabelle
  imports Main "HOL-Library.Word"
begin

unbundle bit_operations_syntax

section \<open>Common conventions\<close>

text \<open>
  Status codes are C \<open>int\<close>s.  The program tests them both as booleans
  (\<open>if ((status = f(...)))\<close>) and against \<open>eQCWWAN_ERR_NONE\<close>, so success is 0.
  The three named codes come from the modem SDK's \<open>qmerrno.h\<close>; the theorems below use
  only that they are pairwise different.
\<close>

definition eQCWWAN_ERR_NONE :: int where
  "eQCWWAN_ERR_NONE = 0"

definition eQCWWAN_ERR_GENERAL :: int where
  "eQCWWAN_ERR_GENERAL = 1"

definition eQCWWAN_ERR_QMI_NO_EFFECT :: int where
  "eQCWWAN_ERR_QMI_NO_EFFECT = 1026"

text \<open>
  A response's \<open>ParamPresenceMask\<close> is a 256-bit set; it is modelled as the set of the
  bit positions that are set, and \<open>swi_uint256_get_bit\<close> tests membership.
\<close>

type_synonym swi_uint256 = "nat set"

definition swi_uint256_get_bit :: "swi_uint256 \<Rightarrow> nat \<Rightarrow> bool" where
  "swi_uint256_get_bit m n = (n \<in> m)"

datatype fault = Out_of_bounds | Null_dereference


section \<open>Device Management Service (src/src/dms.c)\<close>

subsection \<open>Operation modes\<close>

text \<open>
  \<open>enum mm_dms_operation_mode\<close> has no negative enumerator, so a value of the type is
  an unsigned 32-bit integer; the comparison \<open>mode >= entries\<close> is made in \<open>size_t\<close>.
\<close>

type_synonym mm_dms_operation_mode = "32 word"

definition MM_DMS_OPERATION_MODE_ONLINE :: mm_dms_operation_mode where
  "MM_DMS_OPERATION_MODE_ONLINE = 0"

definition MM_DMS_OPERATION_MODE_LOW_POWER :: mm_dms_operation_mode where
  "MM_DMS_OPERATION_MODE_LOW_POWER = 1"

definition MM_DMS_OPERATION_MODE_INVALID :: mm_dms_operation_mode where
  "MM_DMS_OPERATION_MODE_INVALID = 255"

definition mm_dms_operation_modes :: "string list" where
  "mm_dms_operation_modes =
    [''Online'',
     ''Low power (airplane) mode'',
     ''Factory test mode'',
     ''Offline'',
     ''Resetting'',
     ''Power off'',
     ''Persistent low power (airplane) mode'',
     ''Mode-only low power'']"

text \<open>An array read that reports an index outside the array instead of reading there.\<close>

definition array_read :: "'a list \<Rightarrow> nat \<Rightarrow> fault + 'a" where
  "array_read xs i = (if i < length xs then Inr (xs ! i) else Inl Out_of_bounds)"

definition mm_dms_get_operation_mode_string :: "mm_dms_operation_mode \<Rightarrow> fault + string" where
  "mm_dms_get_operation_mode_string mode =
    (let entries = length mm_dms_operation_modes in
     if unat mode \<ge> entries then Inr ''Invalid''
     else array_read mm_dms_operation_modes (unat mode))"

subsection \<open>Power state\<close>

text \<open>
  The modem is reached through \<open>QmiService_SendSyncRequest\<close>.  A request is answered
  by the environment; the answer may depend on everything that was requested before, so
  the environment is a function from the requests made so far and the new request to the
  reply, and the state that the DMS functions thread is the list of requests made.
\<close>

datatype dms_request = GetPower | SetPower mm_dms_operation_mode

record dms_reply =
  q_status :: int
  q_Tlvresult :: int
  q_ParamPresenceMask :: swi_uint256
  q_OperationMode :: "32 word"
  q_HardwareControlledMode :: "32 word"

type_synonym dms_modem = "dms_request list \<Rightarrow> dms_request \<Rightarrow> dms_reply"

definition mm_dms_get_power_sync ::
  "dms_modem \<Rightarrow> dms_request list \<Rightarrow> int \<times> mm_dms_operation_mode \<times> bool \<times> dms_request list" where
  "mm_dms_get_power_sync modem tr =
    (let resp = modem tr GetPower;
         tr' = tr @ [GetPower];
         status = q_status resp in
     if status = eQCWWAN_ERR_NONE then
       if q_Tlvresult resp \<noteq> eQCWWAN_ERR_NONE
       then (q_Tlvresult resp, MM_DMS_OPERATION_MODE_INVALID, False, tr')
       else
         (status,
          (if swi_uint256_get_bit (q_ParamPresenceMask resp) 1
           then q_OperationMode resp else MM_DMS_OPERATION_MODE_INVALID),
          (if swi_uint256_get_bit (q_ParamPresenceMask resp) 16
           then q_HardwareControlledMode resp \<noteq> 0 else False),
          tr')
     else (status, MM_DMS_OPERATION_MODE_INVALID, False, tr'))"

definition mm_dms_set_power_sync ::
  "dms_modem \<Rightarrow> mm_dms_operation_mode \<Rightarrow> dms_request list
    \<Rightarrow> int \<times> mm_dms_operation_mode \<times> dms_request list" where
  "mm_dms_set_power_sync modem requested_mode tr =
    (case mm_dms_get_power_sync modem tr of
      (status, current_mode, hardware_controlled_mode, tr1) \<Rightarrow>
        if status \<noteq> eQCWWAN_ERR_NONE
        then (status, MM_DMS_OPERATION_MODE_INVALID, tr1)
        else if current_mode = requested_mode \<or> hardware_controlled_mode
        then (eQCWWAN_ERR_NONE, current_mode, tr1)
        else
          (let resp = modem tr1 (SetPower requested_mode);
               tr2 = tr1 @ [SetPower requested_mode];
               status = q_status resp in
           if status = eQCWWAN_ERR_NONE then
             if q_Tlvresult resp \<noteq> eQCWWAN_ERR_NONE
             then (q_Tlvresult resp, MM_DMS_OPERATION_MODE_INVALID, tr2)
             else
               (case mm_dms_get_power_sync modem tr2 of
                 (status, current_mode, hardware_controlled_mode, tr3) \<Rightarrow>
                   if status \<noteq> eQCWWAN_ERR_NONE
                   then (status, MM_DMS_OPERATION_MODE_INVALID, tr3)
                   else if current_mode \<noteq> requested_mode
                   then (eQCWWAN_ERR_GENERAL, current_mode, tr3)
                   else (status, current_mode, tr3))
           else (status, MM_DMS_OPERATION_MODE_INVALID, tr2)))"

text \<open>What a successful \<open>GetPower\<close> reply reads as.\<close>

definition get_power_ok :: "dms_reply \<Rightarrow> bool" where
  "get_power_ok r = (q_status r = eQCWWAN_ERR_NONE \<and> q_Tlvresult r = eQCWWAN_ERR_NONE)"

definition reported_mode :: "dms_reply \<Rightarrow> mm_dms_operation_mode" where
  "reported_mode r =
    (if swi_uint256_get_bit (q_ParamPresenceMask r) 1
     then q_OperationMode r else MM_DMS_OPERATION_MODE_INVALID)"

definition reported_hardware_controlled :: "dms_reply \<Rightarrow> bool" where
  "reported_hardware_controlled r =
    (swi_uint256_get_bit (q_ParamPresenceMask r) 16 \<and> q_HardwareControlledMode r \<noteq> 0)"


definition set_power_ok :: "dms_reply \<Rightarrow> bool" where
  "set_power_ok r = (q_status r = eQCWWAN_ERR_NONE \<and> q_Tlvresult r = eQCWWAN_ERR_NONE)"


section \<open>Wireless Data Service (src/wds.c, in src/unnamed/part_008)\<close>

text \<open>
  Lines that the program writes with \<open>MM_LOG\<close> are kept, where a property speaks of
  them, as the text of the message and its integer arguments.
\<close>

datatype log_line = LOG string "int list"

definition AF_INET :: int where
  "AF_INET = 2"

definition AF_INET6 :: int where
  "AF_INET6 = 10"

text \<open>
  \<open>struct mm_wds_runtime_settings\<close>.  Each of \<open>address\<close> and \<open>gateway\<close> is a union of
  an IPv4 and an IPv6 address; the two views are kept as two fields, and the session's
  family says which one is meaningful.
\<close>

record mm_wds_runtime_settings =
  address_in :: "32 word"
  address_in6 :: "16 word list"
  gateway_in :: "32 word"
  gateway_in6 :: "16 word list"
  prefix_length :: int

definition zero_runtime_settings :: mm_wds_runtime_settings where
  "zero_runtime_settings =
    \<lparr>address_in = 0, address_in6 = replicate 8 0,
     gateway_in = 0, gateway_in6 = replicate 8 0, prefix_length = 0\<rparr>"

text \<open>\<open>struct mm_wds_session\<close>, without the opaque \<open>QmiService\<close> handle.\<close>

record mm_wds_session =
  last_runtime_settings :: mm_wds_runtime_settings
  session_id :: "32 word"
  profile :: "32 word"
  family :: int
  teardown_requested :: bool

subsection \<open>Runtime settings\<close>

text \<open>The reply to \<open>SLQSGetRuntimeSettings\<close>: the transport's status and the unpacked fields.\<close>

record runtime_settings_reply =
  rs_status :: int
  rs_Tlvresult :: int
  rs_ParamPresenceMask :: swi_uint256
  rs_IPv4 :: "32 word"
  rs_GWAddressV4 :: "32 word"
  rs_SubnetMaskV4 :: "32 word"
  rs_IPAddressV6 :: "16 word list"
  rs_IPV6PrefixLen :: "8 word"
  rs_gwAddressV6 :: "16 word list"
  rs_gwV6PrefixLen :: "8 word"

text \<open>Byte order conversion on a little-endian host.\<close>

definition ntohl :: "32 word \<Rightarrow> 32 word" where
  "ntohl w =
    push_bit 24 (w AND 0xFF) OR push_bit 8 (w AND 0xFF00) OR
    (drop_bit 8 w AND 0xFF00) OR drop_bit 24 w"

definition ntohs :: "16 word \<Rightarrow> 16 word" where
  "ntohs w = push_bit 8 (w AND 0xFF) OR drop_bit 8 w"

text \<open>
  The loop \<open>while (!(resp.SubnetMaskV4 & 0x1)) { resp.SubnetMaskV4 >>= 1; prefix_length--; }\<close>.
  It has no bound of its own, so it is a partial function: \<open>None\<close> is a loop that does not
  end.
\<close>

partial_function (option) subnet_mask_loop :: "32 word \<Rightarrow> int \<Rightarrow> (32 word \<times> int) option" where
  "subnet_mask_loop SubnetMaskV4 prefix_len =
    (if SubnetMaskV4 AND 0x1 = 0
     then subnet_mask_loop (drop_bit 1 SubnetMaskV4) (prefix_len - 1)
     else Some (SubnetMaskV4, prefix_len))"

declare subnet_mask_loop.simps [code]

text \<open>
  The loop \<open>for (i = 0; i < 8; i++) dst[i] = ntohs(src[i]);\<close> over two arrays of 8
  entries.
\<close>

definition copy_in6 :: "16 word list \<Rightarrow> 16 word list \<Rightarrow> 16 word list" where
  "copy_in6 src dst = fold (\<lambda>i d. d[i := ntohs (src ! i)]) [0..<8] dst"

text \<open>The out-parameters and the log that \<open>mm_wds_get_runtime_settings\<close> builds up.\<close>

record runtime_settings_result =
  settings :: mm_wds_runtime_settings
  address_present :: bool
  gateway_present :: bool
  logged :: "log_line list"

definition runtime_settings_start :: runtime_settings_result where
  "runtime_settings_start =
    \<lparr>settings = zero_runtime_settings, address_present = False, gateway_present = False,
     logged = []\<rparr>"

text \<open>TLV 30: the IPv4 address.\<close>

definition take_v4_address ::
  "int \<Rightarrow> runtime_settings_reply \<Rightarrow> runtime_settings_result \<Rightarrow> runtime_settings_result" where
  "take_v4_address fam resp out =
    (if swi_uint256_get_bit (rs_ParamPresenceMask resp) 30 \<and> fam = AF_INET
     then out\<lparr>address_present := True,
              settings := (settings out)\<lparr>address_in := ntohl (rs_IPv4 resp)\<rparr>\<rparr>
     else out)"

text \<open>TLVs 32 and 33: the IPv4 gateway and subnet mask.\<close>

definition take_v4_gateway ::
  "int \<Rightarrow> runtime_settings_reply \<Rightarrow> runtime_settings_result
    \<Rightarrow> runtime_settings_result option" where
  "take_v4_gateway fam resp out =
    (if swi_uint256_get_bit (rs_ParamPresenceMask resp) 32 \<and>
        swi_uint256_get_bit (rs_ParamPresenceMask resp) 33 \<and> fam = AF_INET
     then
       (case subnet_mask_loop (rs_SubnetMaskV4 resp) 32 of
         None \<Rightarrow> None
       | Some (m, p) \<Rightarrow>
           Some (out\<lparr>gateway_present := True,
                     settings := (settings out)\<lparr>gateway_in := ntohl (rs_GWAddressV4 resp),
                                               prefix_length := p\<rparr>\<rparr>))
     else Some out)"

text \<open>TLV 37: the IPv6 address and its prefix length.\<close>

definition take_v6_address ::
  "int \<Rightarrow> runtime_settings_reply \<Rightarrow> runtime_settings_result \<Rightarrow> runtime_settings_result" where
  "take_v6_address fam resp out =
    (if swi_uint256_get_bit (rs_ParamPresenceMask resp) 37 \<and> fam = AF_INET6
     then out\<lparr>address_present := True,
              settings := (settings out)
                \<lparr>address_in6 := copy_in6 (rs_IPAddressV6 resp) (address_in6 (settings out)),
                 prefix_length := uint (rs_IPV6PrefixLen resp)\<rparr>\<rparr>
     else out)"

text \<open>TLV 38: the IPv6 gateway and its prefix length.\<close>

definition take_v6_gateway ::
  "int \<Rightarrow> runtime_settings_reply \<Rightarrow> runtime_settings_result \<Rightarrow> runtime_settings_result" where
  "take_v6_gateway fam resp out =
    (if swi_uint256_get_bit (rs_ParamPresenceMask resp) 38 \<and> fam = AF_INET6
     then
       (let prefix_len = uint (rs_gwV6PrefixLen resp);
            out1 = out\<lparr>gateway_present := True,
                       settings := (settings out)
                         \<lparr>gateway_in6 :=
                            copy_in6 (rs_gwAddressV6 resp) (gateway_in6 (settings out))\<rparr>\<rparr> in
        if prefix_length (settings out1) \<noteq> 0 \<and> prefix_length (settings out1) \<noteq> prefix_len
        then out1\<lparr>logged := logged out1 @
               [LOG ''IPv6 prefix length for address and gateway differ?''
                  [prefix_length (settings out1), prefix_len]]\<rparr>
        else out1\<lparr>settings := (settings out1)\<lparr>prefix_length := prefix_len\<rparr>\<rparr>)
     else out)"

text \<open>
  \<open>mm_wds_get_runtime_settings\<close>, for a session of family \<open>fam\<close> and the modem's reply.
  The result is the returned status with the out-parameters, or \<open>None\<close> when the call does
  not return.
\<close>

definition mm_wds_get_runtime_settings ::
  "int \<Rightarrow> runtime_settings_reply \<Rightarrow> (int \<times> runtime_settings_result) option" where
  "mm_wds_get_runtime_settings fam resp =
    (let out = runtime_settings_start; status = rs_status resp in
     if status = eQCWWAN_ERR_NONE then
       if rs_Tlvresult resp \<noteq> eQCWWAN_ERR_NONE then Some (rs_Tlvresult resp, out)
       else
         (case take_v4_gateway fam resp (take_v4_address fam resp out) of
           None \<Rightarrow> None
         | Some out2 \<Rightarrow>
             Some (status, take_v6_gateway fam resp (take_v6_address fam resp out2)))
     else Some (status, out))"

subsection \<open>Packet service indications\<close>

text \<open>
  What the transport hands to the callback: the message id that \<open>helper_get_resp_ctx\<close>
  finds, the status of \<open>unpack_wds_SLQSSetPacketSrvStatusCallback\<close> and the structure it
  fills.
\<close>

record wds_indication =
  ind_msgid :: "16 word"
  ind_unpack_status :: int
  ind_Tlvresult :: "16 word"
  ind_ParamPresenceMask :: swi_uint256
  ind_conn_status :: "8 word"
  ind_reconfigReqd :: "8 word"
  ind_sessionEndReason :: "16 word"
  ind_verboseSessnEndReasonType :: "16 word"
  ind_verboseSessnEndReason :: "16 word"

definition eQMI_WDS_PKT_SRVC_STATUS_IND :: "16 word" where
  "eQMI_WDS_PKT_SRVC_STATUS_IND = 0x0022"

text \<open>The locals of the callback after the presence checks.\<close>

definition reason_present :: "wds_indication \<Rightarrow> bool" where
  "reason_present ind = swi_uint256_get_bit (ind_ParamPresenceMask ind) 16"

definition session_end_reason :: "wds_indication \<Rightarrow> 32 word" where
  "session_end_reason ind =
    (if swi_uint256_get_bit (ind_ParamPresenceMask ind) 16
     then ucast (ind_sessionEndReason ind) else 0)"

definition verbose_reason_present :: "wds_indication \<Rightarrow> bool" where
  "verbose_reason_present ind = swi_uint256_get_bit (ind_ParamPresenceMask ind) 17"

definition verbose_session_end_reason_type :: "wds_indication \<Rightarrow> 32 word" where
  "verbose_session_end_reason_type ind =
    (if swi_uint256_get_bit (ind_ParamPresenceMask ind) 17
     then ucast (ind_verboseSessnEndReasonType ind) else 0)"

definition verbose_session_end_reason :: "wds_indication \<Rightarrow> 32 word" where
  "verbose_session_end_reason ind =
    (if swi_uint256_get_bit (ind_ParamPresenceMask ind) 17
     then ucast (ind_verboseSessnEndReason ind) else 0)"

text \<open>
  \<open>wds_indication_callback\<close>.  The context is a pointer to the session, possibly null.
  The callback returns the session as it leaves it; the log lines that print
  \<open>session->session_id\<close> read through the pointer, which is a fault when it is null.
\<close>

definition wds_indication_callback ::
  "wds_indication \<Rightarrow> mm_wds_session option \<Rightarrow> fault + mm_wds_session option" where
  "wds_indication_callback ind context =
    (if ind_msgid ind = eQMI_WDS_PKT_SRVC_STATUS_IND then
       if ind_unpack_status ind \<noteq> eQCWWAN_ERR_NONE then Inr context
       else if ind_Tlvresult ind \<noteq> 0 then Inr context
       else if \<not> swi_uint256_get_bit (ind_ParamPresenceMask ind) 1 then Inr context
       else
         (let connection_status = ind_conn_status ind in
          if (verbose_reason_present ind \<or> reason_present ind) \<and> context = None
          then Inl Null_dereference
          else
            (case context of
              None \<Rightarrow> Inr context
            | Some session \<Rightarrow>
                if session_id session \<noteq> 0 \<and> connection_status = 1 \<and> \<not>
                     ((reason_present ind \<and> session_end_reason ind = 2) \<or>
                      (verbose_reason_present ind \<and>
                         verbose_session_end_reason_type ind = 3 \<and>
                         verbose_session_end_reason ind = 2000))
                then Inr (Some (session\<lparr>teardown_requested := True\<rparr>))
                else Inr context))
     else Inr context)"


section \<open>Host network manager (src/src/netlink.c)\<close>

definition MAX_NETLINK_ADDRS :: nat where
  "MAX_NETLINK_ADDRS = 126"

definition RT_SCOPE_LINK :: int where
  "RT_SCOPE_LINK = 253"

text \<open>
  An address object of the address cache: what the program reads from it.  \<open>a_local_len\<close>
  is \<open>nl_addr_get_len\<close> of the local address and \<open>a_local\<close> the \<open>uint32_t\<close> that
  \<open>memcpy\<close> reads from its first four bytes.
\<close>

record rtnl_addr =
  a_family :: int
  a_ifindex :: int
  a_scope :: int
  a_prefixlen :: int
  a_local_len :: nat
  a_local :: "32 word"

text \<open>
  \<open>struct mm_netlink_addrs\<close>: \<open>addrs_list\<close> holds the \<open>allocated\<close> entries of the
  array that have been written.
\<close>

record mm_netlink_addrs =
  addrs_list :: "rtnl_addr list"
  addrs_count :: nat
  addrs_allocated :: nat

definition collect_nonlink_addrs :: "rtnl_addr \<Rightarrow> mm_netlink_addrs \<Rightarrow> mm_netlink_addrs" where
  "collect_nonlink_addrs addr addrs =
    (if a_scope addr = RT_SCOPE_LINK then addrs
     else
       (let addrs1 =
          (if addrs_allocated addrs < MAX_NETLINK_ADDRS
           then addrs\<lparr>addrs_list := addrs_list addrs @ [addr],
                       addrs_allocated := addrs_allocated addrs + 1\<rparr>
           else addrs) in
        addrs1\<lparr>addrs_count := addrs_count addrs1 + 1\<rparr>))"

text \<open>
  \<open>nl_cache_foreach_filter\<close> calls back on every object of the cache that agrees with the
  filter; the address filter carries the family and the interface index.
\<close>

definition addr_filter :: "int \<Rightarrow> int \<Rightarrow> rtnl_addr \<Rightarrow> bool" where
  "addr_filter fam ifindex a = (a_family a = fam \<and> a_ifindex a = ifindex)"

definition nl_cache_foreach_filter ::
  "rtnl_addr list \<Rightarrow> (rtnl_addr \<Rightarrow> bool) \<Rightarrow> (rtnl_addr \<Rightarrow> 'a \<Rightarrow> 'a) \<Rightarrow> 'a \<Rightarrow> 'a" where
  "nl_cache_foreach_filter cache flt cb data = fold cb (filter flt cache) data"

text \<open>
  Requests to the kernel.  As for the modem, the kernel's answer is a function of the
  requests made so far and the new request.
\<close>

datatype nl_request =
    Rtnl_addr_delete rtnl_addr
  | Rtnl_addr_add "32 word" int
  | Rtnl_route_add "32 word" "32 word"

type_synonym kernel = "nl_request list \<Rightarrow> nl_request \<Rightarrow> int"

definition mm_netlink_add_v4_address ::
  "kernel \<Rightarrow> 32 word \<Rightarrow> int \<Rightarrow> nl_request list \<Rightarrow> int \<times> nl_request list" where
  "mm_netlink_add_v4_address k s_addr prefix_len tr =
    (k tr (Rtnl_addr_add s_addr prefix_len), tr @ [Rtnl_addr_add s_addr prefix_len])"

definition mm_netlink_change_v4_default_gateway ::
  "kernel \<Rightarrow> 32 word \<Rightarrow> 32 word \<Rightarrow> nl_request list \<Rightarrow> int \<times> nl_request list" where
  "mm_netlink_change_v4_default_gateway k wwan_addr gateway_addr tr =
    (k tr (Rtnl_route_add wwan_addr gateway_addr), tr @ [Rtnl_route_add wwan_addr gateway_addr])"

text \<open>
  The loop of \<open>mm_netlink_ensure_v4_configuration_is_applied\<close> over the collected
  addresses, on the locals \<open>status\<close> and \<open>found_address\<close> and the requests made.
\<close>

fun remove_other_addrs ::
  "kernel \<Rightarrow> 32 word \<Rightarrow> int \<Rightarrow> rtnl_addr list \<Rightarrow> int \<times> bool \<times> nl_request list
    \<Rightarrow> int \<times> bool \<times> nl_request list" where
  "remove_other_addrs k address prefix_len [] acc = acc"
| "remove_other_addrs k address prefix_len (a # as) (status, found_address, tr) =
    (if a_prefixlen a = prefix_len \<and> a_local_len a = 4 \<and> a_local a = address
     then remove_other_addrs k address prefix_len as (status, True, tr)
     else remove_other_addrs k address prefix_len as
            (k tr (Rtnl_addr_delete a), found_address, tr @ [Rtnl_addr_delete a]))"

definition collect_v4_addrs :: "int \<Rightarrow> rtnl_addr list \<Rightarrow> mm_netlink_addrs" where
  "collect_v4_addrs wwan_ifindex addr_cache =
    nl_cache_foreach_filter addr_cache (addr_filter AF_INET wwan_ifindex) collect_nonlink_addrs
      \<lparr>addrs_list = [], addrs_count = 0, addrs_allocated = 0\<rparr>"

definition mm_netlink_ensure_v4_configuration_is_applied ::
  "kernel \<Rightarrow> int \<Rightarrow> rtnl_addr list \<Rightarrow> 32 word \<Rightarrow> int \<Rightarrow> 32 word \<Rightarrow> nl_request list
    \<Rightarrow> int \<times> nl_request list" where
  "mm_netlink_ensure_v4_configuration_is_applied k wwan_ifindex addr_cache address prefix_len
      gateway_address tr =
    (let addrs = collect_v4_addrs wwan_ifindex addr_cache;
         status = (if addrs_allocated addrs < addrs_count addrs then - 1 else 0) in
     case remove_other_addrs k address prefix_len
            (take (addrs_allocated addrs) (addrs_list addrs)) (status, False, tr) of
       (status, found_address, tr1) \<Rightarrow>
         (case (if \<not> found_address then mm_netlink_add_v4_address k address prefix_len tr1
                else (status, tr1)) of
            (status, tr2) \<Rightarrow>
              if status = 0
              then mm_netlink_change_v4_default_gateway k address gateway_address tr2
              else (status, tr2)))"


section \<open>Supervisor (src/main.c, after src/netlink.c; src/run_helpers.c, in src/unnamed/part_007)\<close>

text \<open>
  The supervisor sequences calls into the other modules and into the service bus.  What
  it does with their results is modelled here; the results themselves are answers of the
  environment, which may depend on every call made before.  The supervisor's state is the
  flag \<open>exit_requested\<close> and the list of calls made.  The signal handler and the
  indication callback write their flags from outside the main thread; these writes reach
  the model in the answers to \<open>sleep\<close>, where the main thread waits for them.  Every
  call into another module is taken to return.
\<close>

datatype mm_wds_ip_family_preference =
    MM_WDS_IP_FAMILY_PREFERENCE_IPV4
  | MM_WDS_IP_FAMILY_PREFERENCE_IPV6

datatype call =
    Netlink_ensure_wg0_interface_state bool
  | Netlink_ensure_wwan_interface_state bool
  | Netlink_ensure_wg0_routes_are_applied
  | Netlink_reload_link_cache
  | Netlink_addr_flush
  | Configure_autoconnect_and_roaming
  | Sdbus_manage_service string string
  | Dms_initialize
  | Dms_set_power_sync mm_dms_operation_mode
  | Dms_shutdown bool
  | Wds_initialize mm_wds_ip_family_preference
  | Wds_set_ip_family_preference mm_wds_ip_family_preference
  | Wds_start_data_session mm_wds_ip_family_preference nat
  | Wds_get_runtime_settings mm_wds_ip_family_preference
  | Apply_ipv4_runtime_settings bool
  | Apply_ipv6_runtime_settings bool
  | Exec_wireguard_setconf
  | Wds_stop_data_session mm_wds_ip_family_preference
  | Wds_shutdown mm_wds_ip_family_preference
  | Sleep nat

record reply =
  r_status :: int
  r_mode :: mm_dms_operation_mode
  r_address_present :: bool
  r_gateway_present :: bool
  r_sigint :: bool
  r_teardown_v4 :: bool
  r_teardown_v6 :: bool

record supervisor =
  exit_requested :: bool
  calls :: "call list"

type_synonym environment = "call list \<Rightarrow> call \<Rightarrow> reply"

definition invoke :: "environment \<Rightarrow> call \<Rightarrow> supervisor \<Rightarrow> reply \<times> supervisor" where
  "invoke env c st = (env (calls st) c, st\<lparr>calls := calls st @ [c]\<rparr>)"

definition PROFILE_3GPP_VZWINTERNET :: nat where
  "PROFILE_3GPP_VZWINTERNET = 3"

text \<open>\<open>mm_start_session\<close> of src/run_helpers.c.\<close>

definition mm_start_session ::
  "environment \<Rightarrow> nat \<Rightarrow> mm_wds_ip_family_preference \<Rightarrow> supervisor \<Rightarrow> int \<times> supervisor" where
  "mm_start_session env profile_id preference st =
    (case invoke env (Wds_set_ip_family_preference preference) st of
      (r1, st1) \<Rightarrow>
        if r_status r1 \<noteq> 0 then (r_status r1, st1)
        else
          (case invoke env (Wds_start_data_session preference profile_id) st1 of
            (r2, st2) \<Rightarrow>
              if r_status r2 \<noteq> 0 then (r_status r2, st2)
              else (eQCWWAN_ERR_NONE, st2)))"

text \<open>
  \<open>run_sessions_up\<close>: the monitoring loop.  Its arguments after the environment are the
  state and the \<open>teardown_requested\<close> flags of the IPv4 and the IPv6 session.
\<close>

partial_function (option) run_sessions_up ::
  "environment \<Rightarrow> supervisor \<Rightarrow> bool \<Rightarrow> bool \<Rightarrow> (int \<times> supervisor) option" where
  "run_sessions_up env st teardown_v4 teardown_v6 =
    (if \<not> exit_requested st \<and> \<not> teardown_v4 \<and> \<not> teardown_v6
     then
       (case invoke env (Sleep 1) st of
         (r, st1) \<Rightarrow>
           run_sessions_up env (st1\<lparr>exit_requested := exit_requested st1 \<or> r_sigint r\<rparr>)
             (teardown_v4 \<or> r_teardown_v4 r) (teardown_v6 \<or> r_teardown_v6 r))
     else Some (0, st))"

declare run_sessions_up.simps [code]

text \<open>
  The stop of a data session when a session that was started is left (the same code in
  \<open>run_up_ipv4\<close> and in \<open>run_up_ipv6\<close>), on the local \<open>status\<close> and the state.
\<close>

definition stop_data_session_at_teardown ::
  "environment \<Rightarrow> mm_wds_ip_family_preference \<Rightarrow> int \<times> supervisor \<Rightarrow> int \<times> supervisor" where
  "stop_data_session_at_teardown env fam x =
    (case x of (status, st) \<Rightarrow>
      (case invoke env (Wds_stop_data_session fam) st of
        (r, st1) \<Rightarrow>
          (let check = r_status r in
           if check \<noteq> eQCWWAN_ERR_NONE \<and> check \<noteq> eQCWWAN_ERR_QMI_NO_EFFECT
           then (check, st1\<lparr>exit_requested := True\<rparr>)
           else (status, st1))))"

text \<open>The shutdown of the WDS service object at the end of both functions.\<close>

definition wds_shutdown_at_return ::
  "environment \<Rightarrow> mm_wds_ip_family_preference \<Rightarrow> int \<times> supervisor \<Rightarrow> int \<times> supervisor" where
  "wds_shutdown_at_return env fam x =
    (case x of (status, st) \<Rightarrow>
      (case invoke env (Wds_shutdown fam) st of
        (r, st1) \<Rightarrow>
          (let check = r_status r in
           if check \<noteq> 0 then (check, st1\<lparr>exit_requested := True\<rparr>)
           else (status, st1))))"

text \<open>
  \<open>run_up_ipv4\<close> once the IPv4 session has started, up to the stop of the session.  In
  the condition \<open>(status = setconf()) || (status = wg0_up()) || routes()\<close> the result of
  installing the routes is tested but not assigned: when it fails, \<open>status\<close> still is the
  result of bringing the interface up.
\<close>

definition run_up_ipv4_started :: "environment \<Rightarrow> supervisor \<Rightarrow> (int \<times> supervisor) option" where
  "run_up_ipv4_started env st =
    (case invoke env (Wds_get_runtime_settings MM_WDS_IP_FAMILY_PREFERENCE_IPV4) st of
      (r1, st1) \<Rightarrow>
        if r_status r1 \<noteq> eQCWWAN_ERR_NONE then Some (r_status r1, st1)
        else if \<not> r_address_present r1 \<or> \<not> r_gateway_present r1 then Some (- 1, st1)
        else
          (case invoke env (Apply_ipv4_runtime_settings False) st1 of
            (r2, st2) \<Rightarrow>
              if r_status r2 = eQCWWAN_ERR_NONE then
                (case invoke env (Sdbus_manage_service ''StartUnit'' ''unbound.service'') st2 of
                  (r3, st3) \<Rightarrow>
                    if r_status r3 \<noteq> 0
                    then Some (r_status r3, st3\<lparr>exit_requested := True\<rparr>)
                    else
                      (case invoke env Exec_wireguard_setconf st3 of
                        (r4, st4) \<Rightarrow>
                          if r_status r4 \<noteq> 0 then Some (r_status r4, st4)
                          else
                            (case invoke env (Netlink_ensure_wg0_interface_state True) st4 of
                              (r5, st5) \<Rightarrow>
                                if r_status r5 \<noteq> 0 then Some (r_status r5, st5)
                                else
                                  (case invoke env Netlink_ensure_wg0_routes_are_applied st5 of
                                    (r6, st6) \<Rightarrow>
                                      if r_status r6 \<noteq> 0 then Some (r_status r5, st6)
                                      else
                                        (case invoke env
                                            (Sdbus_manage_service ''StartUnit'' ''chrony.service'')
                                            st6 of
                                          (r7, st7) \<Rightarrow>
                                            if r_status r7 \<noteq> 0
                                            then Some (r_status r7,
                                                   st7\<lparr>exit_requested := True\<rparr>)
                                            else run_sessions_up env st7 False False)))))
              else Some (r_status r2, st2\<lparr>exit_requested := True\<rparr>)))"

definition run_up_ipv4 :: "environment \<Rightarrow> supervisor \<Rightarrow> (int \<times> supervisor) option" where
  "run_up_ipv4 env st =
    (case invoke env (Wds_initialize MM_WDS_IP_FAMILY_PREFERENCE_IPV4) st of
      (r, st1) \<Rightarrow>
        if r_status r \<noteq> 0 then Some (r_status r, st1\<lparr>exit_requested := True\<rparr>)
        else
          (case mm_start_session env PROFILE_3GPP_VZWINTERNET
                  MM_WDS_IP_FAMILY_PREFERENCE_IPV4 st1 of
            (status, st2) \<Rightarrow>
              if status = eQCWWAN_ERR_NONE then
                (case run_up_ipv4_started env st2 of
                  None \<Rightarrow> None
                | Some x \<Rightarrow>
                    Some (wds_shutdown_at_return env MM_WDS_IP_FAMILY_PREFERENCE_IPV4
                      (stop_data_session_at_teardown env MM_WDS_IP_FAMILY_PREFERENCE_IPV4 x)))
              else
                Some (wds_shutdown_at_return env MM_WDS_IP_FAMILY_PREFERENCE_IPV4
                  (status, st2))))"

text \<open>\<open>run_up_ipv6\<close> once the IPv6 session has started, up to the stop of the session.\<close>

definition run_up_ipv6_started :: "environment \<Rightarrow> supervisor \<Rightarrow> (int \<times> supervisor) option" where
  "run_up_ipv6_started env st =
    (case invoke env (Wds_get_runtime_settings MM_WDS_IP_FAMILY_PREFERENCE_IPV6) st of
      (r1, st1) \<Rightarrow>
        if r_status r1 \<noteq> eQCWWAN_ERR_NONE then Some (r_status r1, st1)
        else if \<not> r_address_present r1 \<or> \<not> r_gateway_present r1 then Some (- 1, st1)
        else
          (case invoke env (Apply_ipv6_runtime_settings False) st1 of
            (r2, st2) \<Rightarrow>
              if r_status r2 = eQCWWAN_ERR_NONE then run_up_ipv4 env st2
              else Some (r_status r2, st2\<lparr>exit_requested := True\<rparr>)))"

definition run_up_ipv6 :: "environment \<Rightarrow> supervisor \<Rightarrow> (int \<times> supervisor) option" where
  "run_up_ipv6 env st =
    (case invoke env (Wds_initialize MM_WDS_IP_FAMILY_PREFERENCE_IPV6) st of
      (r, st1) \<Rightarrow>
        if r_status r \<noteq> 0 then Some (r_status r, st1\<lparr>exit_requested := True\<rparr>)
        else
          (case mm_start_session env PROFILE_3GPP_VZWINTERNET
                  MM_WDS_IP_FAMILY_PREFERENCE_IPV6 st1 of
            (status, st2) \<Rightarrow>
              if status = eQCWWAN_ERR_NONE then
                (case run_up_ipv6_started env st2 of
                  None \<Rightarrow> None
                | Some x \<Rightarrow>
                    Some (wds_shutdown_at_return env MM_WDS_IP_FAMILY_PREFERENCE_IPV6
                      (stop_data_session_at_teardown env MM_WDS_IP_FAMILY_PREFERENCE_IPV6 x)))
              else
                Some (wds_shutdown_at_return env MM_WDS_IP_FAMILY_PREFERENCE_IPV6
                  (status, st2))))"


subsection \<open>The outer loop of \<open>initialize\<close>\<close>

text \<open>
  One pass of the loop body either leaves the loop with \<open>break\<close> or reaches the end of
  the body.  The body is given in the order of the source, in four parts: bringing the host
  and the modem up, the sessions (\<open>run_up_ipv6\<close>), taking the host down, and stopping the
  services followed by the pause before the next pass.
\<close>

datatype step = Break int supervisor | Proceed int supervisor

text \<open>From the reload of the link cache to the check of the operating mode.\<close>

definition initialize_bring_up :: "environment \<Rightarrow> supervisor \<Rightarrow> step" where
  "initialize_bring_up env st =
    (case invoke env Netlink_reload_link_cache st of
      (r1, st1) \<Rightarrow>
        if r_status r1 \<noteq> 0 then Break (r_status r1) st1
        else
    (case invoke env (Sdbus_manage_service ''StopUnit'' ''chrony.service'') st1 of
      (r2, st2) \<Rightarrow>
        if r_status r2 \<noteq> 0 then Break (r_status r2) st2
        else
    (case invoke env (Sdbus_manage_service ''StopUnit'' ''unbound.service'') st2 of
      (r3, st3) \<Rightarrow>
        if r_status r3 \<noteq> 0 then Break (r_status r3) st3
        else
    (case invoke env (Netlink_ensure_wwan_interface_state True) st3 of
      (r4, st4) \<Rightarrow>
        if r_status r4 \<noteq> 0 then Break (r_status r4) st4
        else
    (case invoke env Netlink_addr_flush st4 of
      (r5, st5) \<Rightarrow>
        if r_status r5 \<noteq> 0 then Break (r_status r5) st5
        else
    (case invoke env Dms_initialize st5 of
      (r6, st6) \<Rightarrow>
        if r_status r6 \<noteq> eQCWWAN_ERR_NONE then Break (r_status r6) st6
        else
    (case invoke env (Dms_set_power_sync MM_DMS_OPERATION_MODE_ONLINE) st6 of
      (r7, st7) \<Rightarrow>
        if r_status r7 \<noteq> eQCWWAN_ERR_NONE then Break (r_status r7) st7
        else if r_mode r7 \<noteq> MM_DMS_OPERATION_MODE_ONLINE then Break (- 1) st7
        else Proceed (r_status r7) st7)))))))"

text \<open>From the shutdown of the DMS service object to the Wireguard interface put down.\<close>

definition initialize_take_down :: "environment \<Rightarrow> int \<Rightarrow> supervisor \<Rightarrow> step" where
  "initialize_take_down env status st =
    (case invoke env (Dms_shutdown (exit_requested st)) st of
      (r1, st1) \<Rightarrow>
        if r_status r1 \<noteq> eQCWWAN_ERR_NONE then Break (r_status r1) st1
        else
    (case invoke env Netlink_reload_link_cache st1 of
      (r2, st2) \<Rightarrow>
        if r_status r2 \<noteq> 0 then Break (r_status r2) st2
        else
    (case invoke env (Netlink_ensure_wwan_interface_state False) st2 of
      (r3, st3) \<Rightarrow>
        if r_status r3 \<noteq> 0 then Break (r_status r3) st3
        else
    (case invoke env (Netlink_ensure_wg0_interface_state False) st3 of
      (r4, st4) \<Rightarrow>
        if r_status r4 \<noteq> 0 then Break (r_status r4) st4
        else Proceed status st4))))"

text \<open>The stop of chrony and unbound at the end of a pass.\<close>

definition initialize_stop_services ::
  "environment \<Rightarrow> int \<times> supervisor \<Rightarrow> int \<times> supervisor" where
  "initialize_stop_services env x =
    (case x of (status, st) \<Rightarrow>
      (case invoke env (Sdbus_manage_service ''StopUnit'' ''chrony.service'') st of
        (r1, st1) \<Rightarrow>
          (case (if r_status r1 \<noteq> 0 then (r_status r1, st1\<lparr>exit_requested := True\<rparr>)
                 else (status, st1)) of
            (status1, st1') \<Rightarrow>
              (case invoke env (Sdbus_manage_service ''StopUnit'' ''unbound.service'') st1' of
                (r2, st2) \<Rightarrow>
                  if r_status r2 \<noteq> 0 then (r_status r2, st2\<lparr>exit_requested := True\<rparr>)
                  else (status1, st2)))))"

text \<open>The pause \<open>if (!exit_requested) sleep(10)\<close>.\<close>

definition initialize_backoff :: "environment \<Rightarrow> supervisor \<Rightarrow> supervisor" where
  "initialize_backoff env st =
    (if \<not> exit_requested st
     then (case invoke env (Sleep 10) st of
            (r, st1) \<Rightarrow> st1\<lparr>exit_requested := exit_requested st1 \<or> r_sigint r\<rparr>)
     else st)"

definition initialize_pass :: "environment \<Rightarrow> supervisor \<Rightarrow> step option" where
  "initialize_pass env st =
    (case initialize_bring_up env st of
      Break status st1 \<Rightarrow> Some (Break status st1)
    | Proceed status st1 \<Rightarrow>
        (case run_up_ipv6 env st1 of
          None \<Rightarrow> None
        | Some (status2, st2) \<Rightarrow>
            (case initialize_take_down env status2 st2 of
              Break status3 st3 \<Rightarrow> Some (Break status3 st3)
            | Proceed status3 st3 \<Rightarrow>
                (case initialize_stop_services env (status3, st3) of
                  (status4, st4) \<Rightarrow> Some (Proceed status4 (initialize_backoff env st4))))))"

text \<open>\<open>while (!exit_requested) { ... }\<close> and the \<open>return status\<close> after it.\<close>

partial_function (option) initialize_loop ::
  "environment \<Rightarrow> int \<Rightarrow> supervisor \<Rightarrow> (int \<times> supervisor) option" where
  "initialize_loop env status st =
    (if \<not> exit_requested st
     then
       (case initialize_pass env st of
         None \<Rightarrow> None
       | Some (Break status1 st1) \<Rightarrow> Some (status1, st1)
       | Some (Proceed status1 st1) \<Rightarrow> initialize_loop env status1 st1)
     else Some (status, st))"

declare initialize_loop.simps [code]

definition initialize :: "environment \<Rightarrow> supervisor \<Rightarrow> (int \<times> supervisor) option" where
  "initialize env st =
    (case invoke env (Netlink_ensure_wg0_interface_state False) st of
      (r1, st1) \<Rightarrow>
        if r_status r1 \<noteq> 0 then Some (r_status r1, st1)
        else
          (case invoke env Configure_autoconnect_and_roaming st1 of
            (r2, st2) \<Rightarrow>
              if r_status r2 \<noteq> 0 then Some (r_status r2, st2)
              else initialize_loop env (r_status r2) st2))"


section \<open>Reference notions and sample inputs\<close>

text \<open>The number of set bits of a subnet mask, as the specification counts it.\<close>

definition popcount :: "32 word \<Rightarrow> nat" where
  "popcount w = length (filter (bit w) [0..<32])"

text \<open>
  A packet service indication is read by the callback when it has the message id of the
  packet service status indication, unpacks without error, carries no error result and
  has its status TLV.
\<close>

definition indication_decodes :: "wds_indication \<Rightarrow> bool" where
  "indication_decodes ind =
    (ind_msgid ind = eQMI_WDS_PKT_SRVC_STATUS_IND \<and> ind_unpack_status ind = eQCWWAN_ERR_NONE \<and>
     ind_Tlvresult ind = 0 \<and> swi_uint256_get_bit (ind_ParamPresenceMask ind) 1)"

definition v6_reply_ok :: "runtime_settings_reply \<Rightarrow> bool" where
  "v6_reply_ok resp =
    (rs_status resp = eQCWWAN_ERR_NONE \<and> rs_Tlvresult resp = eQCWWAN_ERR_NONE \<and>
     swi_uint256_get_bit (rs_ParamPresenceMask resp) 37 \<and>
     swi_uint256_get_bit (rs_ParamPresenceMask resp) 38)"

definition example_session :: "32 word \<Rightarrow> mm_wds_session" where
  "example_session sid =
    \<lparr>last_runtime_settings = zero_runtime_settings, session_id = sid, profile = 3,
     family = AF_INET, teardown_requested = False\<rparr>"

definition example_indication ::
  "nat set \<Rightarrow> 8 word \<Rightarrow> 16 word \<Rightarrow> 16 word \<Rightarrow> 16 word \<Rightarrow> wds_indication" where
  "example_indication present conn reason vtype vreason =
    \<lparr>ind_msgid = eQMI_WDS_PKT_SRVC_STATUS_IND, ind_unpack_status = 0, ind_Tlvresult = 0,
     ind_ParamPresenceMask = present, ind_conn_status = conn, ind_reconfigReqd = 0,
     ind_sessionEndReason = reason, ind_verboseSessnEndReasonType = vtype,
     ind_verboseSessnEndReason = vreason\<rparr>"

definition example_v6_reply :: "8 word \<Rightarrow> 8 word \<Rightarrow> runtime_settings_reply" where
  "example_v6_reply alen glen =
    \<lparr>rs_status = 0, rs_Tlvresult = 0, rs_ParamPresenceMask = {37, 38},
     rs_IPv4 = 0, rs_GWAddressV4 = 0, rs_SubnetMaskV4 = 0,
     rs_IPAddressV6 = [0x2001, 0xdb8, 0, 0, 0, 0, 0, 2], rs_IPV6PrefixLen = alen,
     rs_gwAddressV6 = [0x2001, 0xdb8, 0, 0, 0, 0, 0, 1], rs_gwV6PrefixLen = glen\<rparr>"

definition example_v4_reply :: "32 word \<Rightarrow> runtime_settings_reply" where
  "example_v4_reply subnet_mask =
    \<lparr>rs_status = 0, rs_Tlvresult = 0, rs_ParamPresenceMask = {30, 32, 33},
     rs_IPv4 = 0x0A000002, rs_GWAddressV4 = 0x0A000001, rs_SubnetMaskV4 = subnet_mask,
     rs_IPAddressV6 = replicate 8 0, rs_IPV6PrefixLen = 0,
     rs_gwAddressV6 = replicate 8 0, rs_gwV6PrefixLen = 0\<rparr>"

text \<open>
  A modem in low power mode that goes online when it is told to, and a modem whose mode is
  under hardware control.
\<close>

definition power_reply :: "mm_dms_operation_mode \<Rightarrow> bool \<Rightarrow> dms_reply" where
  "power_reply mode hw =
    \<lparr>q_status = 0, q_Tlvresult = 0, q_ParamPresenceMask = {1, 16},
     q_OperationMode = mode, q_HardwareControlledMode = (if hw then 1 else 0)\<rparr>"

definition obedient_modem :: dms_modem where
  "obedient_modem tr rq =
    (if SetPower MM_DMS_OPERATION_MODE_ONLINE \<in> set tr
     then power_reply MM_DMS_OPERATION_MODE_ONLINE False
     else power_reply MM_DMS_OPERATION_MODE_LOW_POWER False)"

definition locked_modem :: dms_modem where
  "locked_modem tr rq = power_reply MM_DMS_OPERATION_MODE_LOW_POWER True"


text \<open>An address cache of 127 addresses on interface 5, none of them the wanted one.\<close>

definition stale_addr :: rtnl_addr where
  "stale_addr =
    \<lparr>a_family = AF_INET, a_ifindex = 5, a_scope = 0, a_prefixlen = 24, a_local_len = 4,
     a_local = 0x0A000063\<rparr>"

text \<open>A kernel that carries out every request.\<close>

definition willing_kernel :: kernel where
  "willing_kernel tr rq = 0"

text \<open>Sample environments of the supervisor, and the calls of their runs.\<close>

abbreviation V4 :: mm_wds_ip_family_preference where
  "V4 \<equiv> MM_WDS_IP_FAMILY_PREFERENCE_IPV4"

abbreviation V6 :: mm_wds_ip_family_preference where
  "V6 \<equiv> MM_WDS_IP_FAMILY_PREFERENCE_IPV6"

definition after :: "call \<Rightarrow> supervisor \<Rightarrow> supervisor" where
  "after c st = st\<lparr>calls := calls st @ [c]\<rparr>"

definition ok_reply :: reply where
  "ok_reply =
    \<lparr>r_status = 0, r_mode = MM_DMS_OPERATION_MODE_ONLINE, r_address_present = True,
     r_gateway_present = True, r_sigint = False, r_teardown_v4 = False, r_teardown_v6 = False\<rparr>"

definition start_state :: supervisor where
  "start_state = \<lparr>exit_requested = False, calls = []\<rparr>"

text \<open>
  The signal is too weak for the session of one family: its start fails with 1014.
  Everything else works, and the interrupt arrives during the second pause.
\<close>

definition weak_signal_env :: "mm_wds_ip_family_preference \<Rightarrow> environment" where
  "weak_signal_env weak tr c =
    (case c of
      Wds_start_data_session fam p \<Rightarrow>
        if fam = weak then ok_reply\<lparr>r_status := 1014\<rparr> else ok_reply
    | Sleep n \<Rightarrow> ok_reply\<lparr>r_sigint := (Sleep 10 \<in> set tr)\<rparr>
    | _ \<Rightarrow> ok_reply)"

text \<open>
  Everything works, the peer ends the IPv4 session during the first second of monitoring,
  and the service bus fails to stop unbound once the DMS service object is shut down.
\<close>

definition broken_bus_env :: environment where
  "broken_bus_env tr c =
    (case c of
      Sleep n \<Rightarrow> ok_reply\<lparr>r_teardown_v4 := True\<rparr>
    | Sdbus_manage_service method service \<Rightarrow>
        if method = ''StopUnit'' \<and> service = ''unbound.service'' \<and> Dms_shutdown False \<in> set tr
        then ok_reply\<lparr>r_status := - 1\<rparr> else ok_reply
    | _ \<Rightarrow> ok_reply)"

text \<open>
  Everything works, the peer ends the IPv4 session during the first second of monitoring,
  and the modem answers the stop of a session with the given status.
\<close>

definition stop_answer_env :: "int \<Rightarrow> environment" where
  "stop_answer_env check tr c =
    (case c of
      Sleep n \<Rightarrow> ok_reply\<lparr>r_teardown_v4 := True\<rparr>
    | Wds_stop_data_session fam \<Rightarrow> ok_reply\<lparr>r_status := check\<rparr>
    | _ \<Rightarrow> ok_reply)"

definition pass_calls :: "call list \<Rightarrow> call list" where
  "pass_calls session_calls =
    [Netlink_reload_link_cache,
     Sdbus_manage_service ''StopUnit'' ''chrony.service'',
     Sdbus_manage_service ''StopUnit'' ''unbound.service'',
     Netlink_ensure_wwan_interface_state True, Netlink_addr_flush,
     Dms_initialize, Dms_set_power_sync 0] @ session_calls @
    [Dms_shutdown False, Netlink_reload_link_cache,
     Netlink_ensure_wwan_interface_state False,
     Netlink_ensure_wg0_interface_state False,
     Sdbus_manage_service ''StopUnit'' ''chrony.service'',
     Sdbus_manage_service ''StopUnit'' ''unbound.service'']"

definition failed_v6_start_calls :: "call list" where
  "failed_v6_start_calls =
    [Wds_initialize V6, Wds_set_ip_family_preference V6,
     Wds_start_data_session V6 3, Wds_shutdown V6]"

definition failed_v4_start_calls :: "call list" where
  "failed_v4_start_calls =
    [Wds_initialize V4, Wds_set_ip_family_preference V4,
     Wds_start_data_session V4 3, Wds_shutdown V4]"

definition monitored_session_calls :: "call list" where
  "monitored_session_calls =
    [Wds_initialize V6, Wds_set_ip_family_preference V6, Wds_start_data_session V6 3,
     Wds_get_runtime_settings V6, Apply_ipv6_runtime_settings False,
     Wds_initialize V4, Wds_set_ip_family_preference V4, Wds_start_data_session V4 3,
     Wds_get_runtime_settings V4, Apply_ipv4_runtime_settings False,
     Sdbus_manage_service ''StartUnit'' ''unbound.service'',
     Exec_wireguard_setconf, Netlink_ensure_wg0_interface_state True,
     Netlink_ensure_wg0_routes_are_applied,
     Sdbus_manage_service ''StartUnit'' ''chrony.service'', Sleep 1,
     Wds_stop_data_session V4, Wds_shutdown V4,
     Wds_stop_data_session V6, Wds_shutdown V6]"


text \<open>
  Notions for following a pass of the outer loop: the state after further calls; the
  IPv6 runtime settings fetched (with address and gateway) and applied, which is what
  brings \<open>run_up_ipv6\<close> to call \<open>run_up_ipv4\<close>; the two stops at the end of a pass
  both succeeding; and the state in which the next pass begins after them and the pause.
\<close>

abbreviation Stop_chrony :: call where
  "Stop_chrony \<equiv> Sdbus_manage_service ''StopUnit'' ''chrony.service''"

abbreviation Stop_unbound :: call where
  "Stop_unbound \<equiv> Sdbus_manage_service ''StopUnit'' ''unbound.service''"

definition after_all :: "call list \<Rightarrow> supervisor \<Rightarrow> supervisor" where
  "after_all cs st = st\<lparr>calls := calls st @ cs\<rparr>"

definition v6_settings_applied :: "environment \<Rightarrow> supervisor \<Rightarrow> bool" where
  "v6_settings_applied env st =
    (r_status (env (calls st) (Wds_get_runtime_settings V6)) = eQCWWAN_ERR_NONE \<and>
     r_address_present (env (calls st) (Wds_get_runtime_settings V6)) \<and>
     r_gateway_present (env (calls st) (Wds_get_runtime_settings V6)) \<and>
     r_status (env (calls st @ [Wds_get_runtime_settings V6])
       (Apply_ipv6_runtime_settings False)) = eQCWWAN_ERR_NONE)"

definition services_stop :: "environment \<Rightarrow> supervisor \<Rightarrow> bool" where
  "services_stop env st =
    (r_status (env (calls st) Stop_chrony) = 0 \<and>
     r_status (env (calls st @ [Stop_chrony]) Stop_unbound) = 0)"

definition next_pass_state :: "environment \<Rightarrow> supervisor \<Rightarrow> supervisor" where
  "next_pass_state env st =
    st\<lparr>calls := calls st @ [Stop_chrony, Stop_unbound, Sleep 10],
       exit_requested := r_sigint (env (calls st @ [Stop_chrony, Stop_unbound]) (Sleep 10))\<rparr>"

definition failed_v4_session_calls :: "call list" where
  "failed_v4_session_calls =
    [Wds_initialize V6, Wds_set_ip_family_preference V6, Wds_start_data_session V6 3,
     Wds_get_runtime_settings V6, Apply_ipv6_runtime_settings False,
     Wds_initialize V4, Wds_set_ip_family_preference V4, Wds_start_data_session V4 3,
     Wds_shutdown V4, Wds_stop_data_session V6, Wds_shutdown V6]"


section \<open>Theorems\<close>

lemma mm_dms_get_power_sync_ok:
  "get_power_ok (modem tr GetPower) \<Longrightarrow>
   mm_dms_get_power_sync modem tr =
     (eQCWWAN_ERR_NONE, reported_mode (modem tr GetPower),
      reported_hardware_controlled (modem tr GetPower), tr @ [GetPower])"
  by (simp add: mm_dms_get_power_sync_def get_power_ok_def reported_mode_def
      reported_hardware_controlled_def Let_def)

lemma mm_dms_get_power_sync_trace:
  "snd (snd (snd (mm_dms_get_power_sync modem tr))) = tr @ [GetPower]"
  by (simp add: mm_dms_get_power_sync_def Let_def)

subsection \<open>Operation mode strings\<close>

text \<open>
  C10.  For every value of the operation mode, the defined ones and all others,
  \<open>mm_dms_get_operation_mode_string\<close> returns a string and never reads outside its table
  of 8 entries: the table's entry for the modes 0 to 7 and \<open>Invalid\<close> from 8 on.
\<close>

theorem C10_operation_mode_string:
  "length mm_dms_operation_modes = 8 \<and>
   mm_dms_get_operation_mode_string mode =
     Inr (if unat mode < 8 then mm_dms_operation_modes ! unat mode else ''Invalid'')"
  by (simp add: mm_dms_get_operation_mode_string_def array_read_def mm_dms_operation_modes_def
      Let_def)

theorem C10_operation_mode_string_witness:
  "mm_dms_get_operation_mode_string 3 = Inr ''Offline'' \<and>
   mm_dms_get_operation_mode_string 8 = Inr ''Invalid'' \<and>
   mm_dms_get_operation_mode_string 255 = Inr ''Invalid''"
  using C10_operation_mode_string [of 3] C10_operation_mode_string [of 8]
    C10_operation_mode_string [of 255]
  by (simp add: mm_dms_operation_modes_def)

subsection \<open>Setting the operating mode\<close>

text \<open>
  C4.  For every requested mode, \<open>mm_dms_set_power_sync\<close> first reads the current mode.
  When the read succeeds and the current mode is the requested one, or the modem reports
  that the mode is under hardware control, it returns success with the current mode as the
  resulting mode and has made no other request.  Otherwise it makes the set request; when
  the set succeeds it reads the mode again, and when that read succeeds the resulting mode
  is the mode read back and the status is \<open>eQCWWAN_ERR_GENERAL\<close> exactly when the mode
  read back differs from the requested one (and success otherwise).
\<close>

theorem C4_set_power:
  fixes modem :: dms_modem
  shows
  "(\<exists>rest. snd (snd (mm_dms_set_power_sync modem req tr)) = tr @ GetPower # rest) \<and>
   (get_power_ok (modem tr GetPower) \<and>
      (reported_mode (modem tr GetPower) = req \<or>
       reported_hardware_controlled (modem tr GetPower)) \<longrightarrow>
    mm_dms_set_power_sync modem req tr =
      (eQCWWAN_ERR_NONE, reported_mode (modem tr GetPower), tr @ [GetPower])) \<and>
   (get_power_ok (modem tr GetPower) \<and>
      reported_mode (modem tr GetPower) \<noteq> req \<and>
      \<not> reported_hardware_controlled (modem tr GetPower) \<longrightarrow>
    (\<exists>rest. snd (snd (mm_dms_set_power_sync modem req tr)) =
       tr @ [GetPower, SetPower req] @ rest) \<and>
    (set_power_ok (modem (tr @ [GetPower]) (SetPower req)) \<longrightarrow>
      snd (snd (mm_dms_set_power_sync modem req tr)) =
        tr @ [GetPower, SetPower req, GetPower] \<and>
      (get_power_ok (modem (tr @ [GetPower, SetPower req]) GetPower) \<longrightarrow>
        fst (snd (mm_dms_set_power_sync modem req tr)) =
          reported_mode (modem (tr @ [GetPower, SetPower req]) GetPower) \<and>
        (fst (mm_dms_set_power_sync modem req tr) = eQCWWAN_ERR_GENERAL \<longleftrightarrow>
          reported_mode (modem (tr @ [GetPower, SetPower req]) GetPower) \<noteq> req) \<and>
        (fst (mm_dms_set_power_sync modem req tr) = eQCWWAN_ERR_NONE \<longleftrightarrow>
          reported_mode (modem (tr @ [GetPower, SetPower req]) GetPower) = req))))"
proof (intro conjI impI)
  show "\<exists>rest. snd (snd (mm_dms_set_power_sync modem req tr)) = tr @ GetPower # rest"
    using mm_dms_get_power_sync_trace [of modem tr]
      mm_dms_get_power_sync_trace [of modem "tr @ [GetPower, SetPower req]"]
    by (auto simp: mm_dms_set_power_sync_def Let_def split: prod.splits)
next
  assume "get_power_ok (modem tr GetPower) \<and>
      (reported_mode (modem tr GetPower) = req \<or>
       reported_hardware_controlled (modem tr GetPower))"
  then show "mm_dms_set_power_sync modem req tr =
      (eQCWWAN_ERR_NONE, reported_mode (modem tr GetPower), tr @ [GetPower])"
    by (auto simp: mm_dms_set_power_sync_def mm_dms_get_power_sync_ok)
next
  assume a: "get_power_ok (modem tr GetPower) \<and>
      reported_mode (modem tr GetPower) \<noteq> req \<and>
      \<not> reported_hardware_controlled (modem tr GetPower)"
  show "\<exists>rest. snd (snd (mm_dms_set_power_sync modem req tr)) =
       tr @ [GetPower, SetPower req] @ rest"
    using a mm_dms_get_power_sync_trace [of modem "tr @ [GetPower, SetPower req]"]
    by (auto simp: mm_dms_set_power_sync_def mm_dms_get_power_sync_ok Let_def
        split: prod.splits)
  assume b: "set_power_ok (modem (tr @ [GetPower]) (SetPower req))"
  show "snd (snd (mm_dms_set_power_sync modem req tr)) =
        tr @ [GetPower, SetPower req, GetPower]"
    using a b mm_dms_get_power_sync_trace [of modem "tr @ [GetPower, SetPower req]"]
    by (auto simp: mm_dms_set_power_sync_def mm_dms_get_power_sync_ok Let_def
        set_power_ok_def split: prod.splits)
  assume c: "get_power_ok (modem (tr @ [GetPower, SetPower req]) GetPower)"
  have r: "mm_dms_set_power_sync modem req tr =
    ((if reported_mode (modem (tr @ [GetPower, SetPower req]) GetPower) \<noteq> req
      then eQCWWAN_ERR_GENERAL else eQCWWAN_ERR_NONE),
     reported_mode (modem (tr @ [GetPower, SetPower req]) GetPower),
     tr @ [GetPower, SetPower req, GetPower])"
    using a b c
    by (simp add: mm_dms_set_power_sync_def mm_dms_get_power_sync_ok Let_def
        set_power_ok_def)
  show "fst (snd (mm_dms_set_power_sync modem req tr)) =
          reported_mode (modem (tr @ [GetPower, SetPower req]) GetPower)"
    by (simp add: r)
  show "(fst (mm_dms_set_power_sync modem req tr) = eQCWWAN_ERR_GENERAL) =
          (reported_mode (modem (tr @ [GetPower, SetPower req]) GetPower) \<noteq> req)"
    by (simp add: r eQCWWAN_ERR_GENERAL_def eQCWWAN_ERR_NONE_def)
  show "(fst (mm_dms_set_power_sync modem req tr) = eQCWWAN_ERR_NONE) =
          (reported_mode (modem (tr @ [GetPower, SetPower req]) GetPower) = req)"
    by (simp add: r eQCWWAN_ERR_GENERAL_def eQCWWAN_ERR_NONE_def)
qed

text \<open>
  The theorem at a modem under hardware control in low power mode, which is left alone,
  and at a modem in low power mode that obeys the request to go online.
\<close>

theorem C4_set_power_witness:
  "mm_dms_set_power_sync locked_modem MM_DMS_OPERATION_MODE_ONLINE [] =
     (eQCWWAN_ERR_NONE, MM_DMS_OPERATION_MODE_LOW_POWER, [GetPower]) \<and>
   snd (snd (mm_dms_set_power_sync obedient_modem MM_DMS_OPERATION_MODE_ONLINE [])) =
     [GetPower, SetPower MM_DMS_OPERATION_MODE_ONLINE, GetPower] \<and>
   fst (snd (mm_dms_set_power_sync obedient_modem MM_DMS_OPERATION_MODE_ONLINE [])) =
     MM_DMS_OPERATION_MODE_ONLINE \<and>
   fst (mm_dms_set_power_sync obedient_modem MM_DMS_OPERATION_MODE_ONLINE []) =
     eQCWWAN_ERR_NONE"
  using C4_set_power [of locked_modem MM_DMS_OPERATION_MODE_ONLINE "[]"]
    C4_set_power [of obedient_modem MM_DMS_OPERATION_MODE_ONLINE "[]"]
  by (simp add: locked_modem_def obedient_modem_def power_reply_def get_power_ok_def
      set_power_ok_def reported_mode_def reported_hardware_controlled_def
      swi_uint256_get_bit_def eQCWWAN_ERR_NONE_def MM_DMS_OPERATION_MODE_ONLINE_def
      MM_DMS_OPERATION_MODE_LOW_POWER_def)

subsection \<open>The packet service indication callback\<close>

text \<open>
  C1, as the code has it.  For every indication delivered with a session as context, the
  callback sets \<open>teardown_requested\<close> exactly when the indication is a packet service
  status indication that decodes, the session's \<open>session_id\<close> is not 0, the connection
  status is 1 (disconnected) and the end of the session is not the host's own doing:
  neither \<open>session_end_reason = 2\<close> nor the verbose reason type 3 with verbose reason 2000
  (a reason that is absent reads as 0).  It changes nothing else of the session.
\<close>

theorem C1_teardown_filter:
  "wds_indication_callback ind (Some s) =
    Inr (Some (if indication_decodes ind \<and> session_id s \<noteq> 0 \<and> ind_conn_status ind = 1 \<and>
                 \<not> (session_end_reason ind = 2 \<or>
                    (verbose_session_end_reason_type ind = 3 \<and>
                     verbose_session_end_reason ind = 2000))
               then s\<lparr>teardown_requested := True\<rparr> else s))"
  by (auto simp add: wds_indication_callback_def indication_decodes_def reason_present_def
      verbose_reason_present_def session_end_reason_def verbose_session_end_reason_type_def
      verbose_session_end_reason_def Let_def)

text \<open>
  A disconnect with end reason 7 on a session that is up requests the teardown; one with
  end reason 2 does not.
\<close>

theorem C1_teardown_filter_witness:
  "wds_indication_callback (example_indication {1, 16} 1 7 0 0) (Some (example_session 5)) =
     Inr (Some ((example_session 5)\<lparr>teardown_requested := True\<rparr>)) \<and>
   wds_indication_callback (example_indication {1, 16} 1 2 0 0) (Some (example_session 5)) =
     Inr (Some (example_session 5))"
  using C1_teardown_filter [of "example_indication {1, 16} 1 7 0 0" "example_session 5"]
    C1_teardown_filter [of "example_indication {1, 16} 1 2 0 0" "example_session 5"]
  by (simp add: indication_decodes_def example_indication_def example_session_def
      swi_uint256_get_bit_def eQCWWAN_ERR_NONE_def session_end_reason_def
      verbose_session_end_reason_type_def verbose_session_end_reason_def)

text \<open>
  C1 as it is stated fails: a disconnect without any end reason, delivered to a session
  whose \<open>session_id\<close> is 0, leaves \<open>teardown_requested\<close> false.
\<close>

theorem C1_counterexample:
  "wds_indication_callback (example_indication {1} 1 0 0 0) (Some (example_session 0)) =
     Inr (Some (example_session 0)) \<and>
   \<not> teardown_requested (example_session 0) \<and>
   ind_conn_status (example_indication {1} 1 0 0 0) = 1 \<and>
   \<not> (session_end_reason (example_indication {1} 1 0 0 0) = 2 \<or>
      (verbose_session_end_reason_type (example_indication {1} 1 0 0 0) = 3 \<and>
       verbose_session_end_reason (example_indication {1} 1 0 0 0) = 2000))"
  by (simp add: wds_indication_callback_def example_indication_def example_session_def
      swi_uint256_get_bit_def eQCWWAN_ERR_NONE_def reason_present_def verbose_reason_present_def
      session_end_reason_def verbose_session_end_reason_type_def verbose_session_end_reason_def)

text \<open>
  C9.  The callback sets \<open>teardown_requested\<close> only when its context is not null and the
  session's \<open>session_id\<close> is not 0: whenever it returns a changed context, the context
  was such a session and the change is the flag; with a null context it returns the null
  context or faults in a log line; a session with \<open>session_id = 0\<close> is returned as it
  was, whatever the indication.  The end reason suppresses the teardown only when it is
  present: a disconnect that decodes, on a session that is up, requests the teardown when
  the end reason is absent and the verbose pair does not suppress it, and when the verbose
  pair is absent and the end reason does not, whatever the absent fields hold.
\<close>

theorem C9_teardown_guard:
  "(wds_indication_callback ind context = Inr context' \<and> context' \<noteq> context \<longrightarrow>
      (\<exists>s. context = Some s \<and> session_id s \<noteq> 0 \<and>
           context' = Some (s\<lparr>teardown_requested := True\<rparr>))) \<and>
   (wds_indication_callback ind None = Inr None \<or>
    wds_indication_callback ind None = Inl Null_dereference) \<and>
   (session_id s = 0 \<longrightarrow> wds_indication_callback ind (Some s) = Inr (Some s)) \<and>
   (indication_decodes ind \<and> session_id s \<noteq> 0 \<and> ind_conn_status ind = 1 \<and>
    \<not> reason_present ind \<and>
    \<not> (verbose_reason_present ind \<and> verbose_session_end_reason_type ind = 3 \<and>
       verbose_session_end_reason ind = 2000) \<longrightarrow>
      wds_indication_callback ind (Some s) = Inr (Some (s\<lparr>teardown_requested := True\<rparr>))) \<and>
   (indication_decodes ind \<and> session_id s \<noteq> 0 \<and> ind_conn_status ind = 1 \<and>
    \<not> verbose_reason_present ind \<and>
    \<not> (reason_present ind \<and> session_end_reason ind = 2) \<longrightarrow>
      wds_indication_callback ind (Some s) = Inr (Some (s\<lparr>teardown_requested := True\<rparr>)))"
proof (intro conjI impI)
  assume "wds_indication_callback ind context = Inr context' \<and> context' \<noteq> context"
  then show "\<exists>s. context = Some s \<and> session_id s \<noteq> 0 \<and>
           context' = Some (s\<lparr>teardown_requested := True\<rparr>)"
    by (auto simp: wds_indication_callback_def Let_def split: if_splits option.splits)
next
  show "wds_indication_callback ind None = Inr None \<or>
    wds_indication_callback ind None = Inl Null_dereference"
    by (simp add: wds_indication_callback_def Let_def)
next
  assume "session_id s = 0"
  then show "wds_indication_callback ind (Some s) = Inr (Some s)"
    by (simp add: wds_indication_callback_def Let_def)
next
  assume "indication_decodes ind \<and> session_id s \<noteq> 0 \<and> ind_conn_status ind = 1 \<and>
    \<not> reason_present ind \<and>
    \<not> (verbose_reason_present ind \<and> verbose_session_end_reason_type ind = 3 \<and>
       verbose_session_end_reason ind = 2000)"
  then show "wds_indication_callback ind (Some s) =
      Inr (Some (s\<lparr>teardown_requested := True\<rparr>))"
    by (auto simp: wds_indication_callback_def indication_decodes_def Let_def)
next
  assume "indication_decodes ind \<and> session_id s \<noteq> 0 \<and> ind_conn_status ind = 1 \<and>
    \<not> verbose_reason_present ind \<and>
    \<not> (reason_present ind \<and> session_end_reason ind = 2)"
  then show "wds_indication_callback ind (Some s) =
      Inr (Some (s\<lparr>teardown_requested := True\<rparr>))"
    by (auto simp: wds_indication_callback_def indication_decodes_def Let_def)
qed

text \<open>
  A disconnect whose reason fields hold 2 and (3, 2000) but are not marked present: it is
  ignored by a session with \<open>session_id = 0\<close> and requests the teardown of session 5.
\<close>

theorem C9_teardown_guard_witness:
  "wds_indication_callback (example_indication {1} 1 2 3 2000) (Some (example_session 0)) =
     Inr (Some (example_session 0)) \<and>
   wds_indication_callback (example_indication {1} 1 2 3 2000) (Some (example_session 5)) =
     Inr (Some ((example_session 5)\<lparr>teardown_requested := True\<rparr>))"
  using C9_teardown_guard [of "example_indication {1} 1 2 3 2000" None None "example_session 0"]
    C9_teardown_guard [of "example_indication {1} 1 2 3 2000" None None "example_session 5"]
  by (simp add: indication_decodes_def example_indication_def example_session_def
      swi_uint256_get_bit_def eQCWWAN_ERR_NONE_def reason_present_def
      verbose_reason_present_def)

subsection \<open>Runtime settings\<close>

lemma AF_distinct: "AF_INET6 \<noteq> AF_INET"
  by (simp add: AF_INET_def AF_INET6_def)

lemma subnet_mask_loop_zero: "subnet_mask_loop 0 p = None"
proof (cases "subnet_mask_loop 0 p")
  case None
  then show ?thesis .
next
  case (Some y)
  have "m \<noteq> 0" if "subnet_mask_loop m q = Some z" for m q z
  proof (rule subnet_mask_loop.raw_induct [where P = "\<lambda>m q z. m \<noteq> 0", OF _ that])
    fix f :: "32 word \<Rightarrow> int \<Rightarrow> (32 word \<times> int) option" and m' q' z'
    assume IH: "\<And>x b y. f x b = Some y \<Longrightarrow> x \<noteq> 0"
      and eq: "(if m' AND 1 = 0 then f (drop_bit 1 m') (q' - 1) else Some (m', q')) = Some z'"
    show "m' \<noteq> 0"
    proof
      assume "m' = 0"
      with eq have "f 0 (q' - 1) = Some z'" by simp
      from IH [OF this] show False by simp
    qed
  qed
  with Some show ?thesis by blast
qed

lemma subnet_mask_loop_trailing:
  "bit m n \<Longrightarrow> (\<forall>i<n. \<not> bit m i) \<Longrightarrow>
   subnet_mask_loop m p = Some (drop_bit n m, p - int n)"
proof (induction n arbitrary: m p)
  case 0
  then have "m AND 1 \<noteq> 0"
    by (simp add: and_one_eq bit_0 mod_2_eq_odd)
  then show ?case
    by (subst subnet_mask_loop.simps) simp
next
  case (Suc n)
  have b0: "\<not> bit m 0" using Suc.prems(2) by simp
  then have z: "m AND 1 = 0"
    by (simp add: and_one_eq bit_0 mod_2_eq_odd)
  have 1: "bit (drop_bit 1 m) n"
    using Suc.prems(1) by (simp add: bit_drop_bit_eq)
  have 2: "\<forall>i<n. \<not> bit (drop_bit 1 m) i"
    using Suc.prems(2) by (simp add: bit_drop_bit_eq)
  have "subnet_mask_loop m p = subnet_mask_loop (drop_bit 1 m) (p - 1)"
    by (subst subnet_mask_loop.simps) (simp add: z)
  also have "\<dots> = Some (drop_bit n (drop_bit 1 m), p - 1 - int n)"
    by (rule Suc.IH [OF 1 2])
  finally show ?case
    by simp
qed

lemma filter_le_upt: "filter (\<lambda>i. n \<le> i) [0..<m] = [n..<m]"
  by (induction m) auto

lemma popcount_contiguous: "n \<le> 32 \<Longrightarrow> popcount (push_bit n (- 1)) = 32 - n"
proof -
  assume n: "n \<le> 32"
  have "filter (bit (push_bit n (- 1) :: 32 word)) [0..<32] = filter (\<lambda>i. n \<le> i) [0..<32]"
    by (rule filter_cong) (auto simp: bit_simps)
  then show ?thesis
    by (simp add: popcount_def filter_le_upt del: push_bit_minus_one_eq_not_mask)
qed

text \<open>
  The 32 masks with at least one bit set, \<open>push_bit n (- 1)\<close> for \<open>n < 32\<close>: the prefix
  length of the settings is the number of set bits of the mask, 32 less its trailing zero
  bits.
\<close>

lemma v4_prefix_of_nonzero_mask:
  assumes "n < 32"
  shows "\<exists>out. mm_wds_get_runtime_settings AF_INET (example_v4_reply (push_bit n (- 1))) =
      Some (eQCWWAN_ERR_NONE, out) \<and>
    prefix_length (settings out) = int (popcount (push_bit n (- 1))) \<and>
    prefix_length (settings out) = 32 - int n"
proof -
  have "subnet_mask_loop (push_bit n (- 1)) 32 =
    Some (drop_bit n (push_bit n (- 1) :: 32 word), 32 - int n)"
    using assms by (intro subnet_mask_loop_trailing) (auto simp: bit_simps)
  moreover have "int (popcount (push_bit n (- 1))) = 32 - int n"
    using assms popcount_contiguous [of n] by simp
  ultimately show ?thesis
    by (simp add: mm_wds_get_runtime_settings_def example_v4_reply_def take_v4_address_def
        take_v4_gateway_def take_v6_address_def take_v6_gateway_def swi_uint256_get_bit_def
        runtime_settings_start_def AF_distinct AF_distinct [symmetric] eQCWWAN_ERR_NONE_def
        Let_def del: push_bit_minus_one_eq_not_mask)
qed

text \<open>
  C3 fails at one of the 33 masks.  With the subnet mask \<open>0x00000000\<close> in an IPv4 reply
  that carries the gateway and the mask, the loop that counts the trailing zero bits never
  finds a set bit and \<open>mm_wds_get_runtime_settings\<close> does not return, where the claim
  has the prefix length 0.
\<close>

theorem C3_zero_mask_never_returns:
  "mm_wds_get_runtime_settings AF_INET (example_v4_reply 0) = None"
  by (simp add: mm_wds_get_runtime_settings_def example_v4_reply_def take_v4_address_def
      take_v4_gateway_def swi_uint256_get_bit_def runtime_settings_start_def
      eQCWWAN_ERR_NONE_def subnet_mask_loop_zero Let_def)

text \<open>
  C8, as the code has it.  For every IPv6 reply in which the address TLV and the gateway
  TLV are both present and their prefix lengths differ: when the address's prefix length is
  not 0, the difference is logged and the address's prefix length is kept; when it is 0,
  nothing is logged and the gateway's prefix length is taken.
\<close>

theorem C8_v6_prefix_disagreement:
  assumes "v6_reply_ok resp"
    and "rs_IPV6PrefixLen resp \<noteq> rs_gwV6PrefixLen resp"
  shows "\<exists>out. mm_wds_get_runtime_settings AF_INET6 resp = Some (eQCWWAN_ERR_NONE, out) \<and>
    (if rs_IPV6PrefixLen resp \<noteq> 0
     then prefix_length (settings out) = uint (rs_IPV6PrefixLen resp) \<and>
          logged out = [LOG ''IPv6 prefix length for address and gateway differ?''
                          [uint (rs_IPV6PrefixLen resp), uint (rs_gwV6PrefixLen resp)]]
     else prefix_length (settings out) = uint (rs_gwV6PrefixLen resp) \<and> logged out = [])"
  using assms
  by (simp add: mm_wds_get_runtime_settings_def v6_reply_ok_def take_v4_address_def
      take_v4_gateway_def take_v6_address_def take_v6_gateway_def
      runtime_settings_start_def AF_distinct AF_distinct [symmetric] Let_def
      word_uint_eq_iff [symmetric] uint_0_iff)

text \<open>An address with prefix length 64 and a gateway with prefix length 56.\<close>

theorem C8_v6_prefix_disagreement_witness:
  "(case mm_wds_get_runtime_settings AF_INET6 (example_v6_reply 64 56) of
      None \<Rightarrow> False
    | Some x \<Rightarrow> fst x = 0 \<and> prefix_length (settings (snd x)) = 64 \<and>
        logged (snd x) = [LOG ''IPv6 prefix length for address and gateway differ?'' [64, 56]])"
  using C8_v6_prefix_disagreement [of "example_v6_reply 64 56"]
  by (auto simp add: v6_reply_ok_def example_v6_reply_def swi_uint256_get_bit_def
      eQCWWAN_ERR_NONE_def)

text \<open>
  C8 as it is stated fails: an address with prefix length 0 and a gateway with prefix
  length 64 disagree, nothing is logged, and the settings hold the gateway's 64.
\<close>

theorem C8_counterexample:
  "uint (rs_IPV6PrefixLen (example_v6_reply 0 64)) \<noteq>
     uint (rs_gwV6PrefixLen (example_v6_reply 0 64)) \<and>
   (case mm_wds_get_runtime_settings AF_INET6 (example_v6_reply 0 64) of
      None \<Rightarrow> False
    | Some x \<Rightarrow> prefix_length (settings (snd x)) = 64 \<and> logged (snd x) = [])"
  by (simp add: mm_wds_get_runtime_settings_def example_v6_reply_def take_v4_address_def
      take_v4_gateway_def take_v6_address_def take_v6_gateway_def swi_uint256_get_bit_def
      runtime_settings_start_def AF_distinct AF_distinct [symmetric] eQCWWAN_ERR_NONE_def Let_def)

subsection \<open>Reconciling the IPv4 addresses\<close>

lemma collect_count:
  "addrs_count (fold collect_nonlink_addrs xs acc) =
     addrs_count acc + length (filter (\<lambda>a. a_scope a \<noteq> RT_SCOPE_LINK) xs)"
  by (induction xs arbitrary: acc) (auto simp: collect_nonlink_addrs_def Let_def)

lemma collect_allocated:
  "addrs_allocated (fold collect_nonlink_addrs xs acc) =
     (if addrs_allocated acc \<le> MAX_NETLINK_ADDRS then
        min MAX_NETLINK_ADDRS
         (addrs_allocated acc + length (filter (\<lambda>a. a_scope a \<noteq> RT_SCOPE_LINK) xs))
      else addrs_allocated acc)"
  by (induction xs arbitrary: acc) (auto simp: collect_nonlink_addrs_def Let_def)

lemma collect_one_subset:
  "set (addrs_list (collect_nonlink_addrs a acc)) \<subseteq> set (addrs_list acc) \<union> {a}"
  by (auto simp: collect_nonlink_addrs_def Let_def split: if_splits)

lemma collect_list_subset:
  "set (addrs_list (fold collect_nonlink_addrs xs acc)) \<subseteq> set (addrs_list acc) \<union> set xs"
proof (induction xs arbitrary: acc)
  case Nil
  then show ?case by simp
next
  case (Cons a xs)
  have "set (addrs_list (fold collect_nonlink_addrs xs (collect_nonlink_addrs a acc)))
      \<subseteq> set (addrs_list (collect_nonlink_addrs a acc)) \<union> set xs"
    by (rule Cons.IH)
  with collect_one_subset [of a acc] show ?case by auto
qed

lemma remove_other_addrs_found:
  "\<forall>a \<in> set as. \<not> (a_prefixlen a = prefix_len \<and> a_local_len a = 4 \<and> a_local a = address) \<Longrightarrow>
   fst (snd (remove_other_addrs k address prefix_len as (status, found, tr))) = found"
  by (induction as arbitrary: status tr) auto

text \<open>
  When the wanted address is not in the cache and the kernel carries out every request,
  the function returns 0, whatever it found when it collected the addresses: the status
  of the last request replaces the status that recorded the overflow.
\<close>

lemma ensure_v4_returns_last_status:
  assumes "\<forall>a \<in> set addr_cache.
      \<not> (a_prefixlen a = prefix_len \<and> a_local_len a = 4 \<and> a_local a = address)"
  shows "fst (mm_netlink_ensure_v4_configuration_is_applied willing_kernel wwan_ifindex addr_cache
      address prefix_len gateway_address tr) = 0"
proof -
  let ?addrs = "collect_v4_addrs wwan_ifindex addr_cache"
  have "set (take (addrs_allocated ?addrs) (addrs_list ?addrs)) \<subseteq> set addr_cache"
    using collect_list_subset [of "filter (addr_filter AF_INET wwan_ifindex) addr_cache"
        "\<lparr>addrs_list = [], addrs_count = 0, addrs_allocated = 0\<rparr>"]
    by (auto simp: collect_v4_addrs_def nl_cache_foreach_filter_def dest!: in_set_takeD)
  with assms have "\<forall>a \<in> set (take (addrs_allocated ?addrs) (addrs_list ?addrs)).
      \<not> (a_prefixlen a = prefix_len \<and> a_local_len a = 4 \<and> a_local a = address)"
    by blast
  from remove_other_addrs_found [OF this]
  have nf: "\<not> fst (snd (remove_other_addrs willing_kernel address prefix_len
      (take (addrs_allocated ?addrs) (addrs_list ?addrs)) (status, False, tr)))" for status
    by simp
  define status0 :: int where
    "status0 = (if addrs_allocated ?addrs < addrs_count ?addrs then - 1 else 0)"
  obtain s1 f1 t1 where r: "remove_other_addrs willing_kernel address prefix_len
      (take (addrs_allocated ?addrs) (addrs_list ?addrs)) (status0, False, tr) = (s1, f1, t1)"
    by (cases "remove_other_addrs willing_kernel address prefix_len
      (take (addrs_allocated ?addrs) (addrs_list ?addrs)) (status0, False, tr)") auto
  with nf [of status0] have "\<not> f1" by simp
  with r show ?thesis
    by (simp add: mm_netlink_ensure_v4_configuration_is_applied_def Let_def
        mm_netlink_add_v4_address_def mm_netlink_change_v4_default_gateway_def
        willing_kernel_def status0_def)
qed

text \<open>
  C2 fails on the code.  With 127 addresses of global scope on the interface, none of them
  the wanted one, 126 are collected and 127 counted, so the overflow is seen; the kernel
  carries out every request and \<open>mm_netlink_ensure_v4_configuration_is_applied\<close>
  returns 0, where the claim has a failure status.
\<close>

theorem C2_overflow_status_is_lost:
  "addrs_count (collect_v4_addrs 5 (replicate 127 stale_addr)) = 127 \<and>
   addrs_allocated (collect_v4_addrs 5 (replicate 127 stale_addr)) = 126 \<and>
   fst (mm_netlink_ensure_v4_configuration_is_applied willing_kernel 5
          (replicate 127 stale_addr) 0x0A000002 24 0x0A000001 []) = 0"
proof (intro conjI)
  have f: "filter (addr_filter AF_INET 5) (replicate 127 stale_addr) = replicate 127 stale_addr"
    by (simp add: addr_filter_def stale_addr_def)
  have g: "filter (\<lambda>a. a_scope a \<noteq> RT_SCOPE_LINK) (replicate 127 stale_addr) =
      replicate 127 stale_addr"
    by (simp add: stale_addr_def RT_SCOPE_LINK_def)
  show "addrs_count (collect_v4_addrs 5 (replicate 127 stale_addr)) = 127"
    by (simp add: collect_v4_addrs_def nl_cache_foreach_filter_def f collect_count g
        del: fold_replicate)
  show "addrs_allocated (collect_v4_addrs 5 (replicate 127 stale_addr)) = 126"
    by (simp add: collect_v4_addrs_def nl_cache_foreach_filter_def f collect_allocated g
        MAX_NETLINK_ADDRS_def del: fold_replicate)
  show "fst (mm_netlink_ensure_v4_configuration_is_applied willing_kernel 5
          (replicate 127 stale_addr) 0x0A000002 24 0x0A000001 []) = 0"
    by (rule ensure_v4_returns_last_status) (simp add: stale_addr_def)
qed

subsection \<open>The supervisor\<close>

lemmas supervisor_defs =
  initialize_pass_def initialize_bring_up_def initialize_take_down_def
  initialize_stop_services_def initialize_backoff_def
  run_up_ipv6_def run_up_ipv6_started_def run_up_ipv4_def run_up_ipv4_started_def invoke_def
  mm_start_session_def stop_data_session_at_teardown_def wds_shutdown_at_return_def
  PROFILE_3GPP_VZWINTERNET_def eQCWWAN_ERR_NONE_def eQCWWAN_ERR_QMI_NO_EFFECT_def
  MM_DMS_OPERATION_MODE_ONLINE_def

lemma mm_start_session_exit:
  "exit_requested (snd (mm_start_session env p fam st)) = exit_requested st"
  by (simp add: mm_start_session_def invoke_def split: prod.splits)

lemma initialize_take_down_Proceed:
  "initialize_take_down env s st = Proceed s' st' \<Longrightarrow>
     s' = s \<and> exit_requested st' = exit_requested st"
  by (auto simp: initialize_take_down_def invoke_def split: if_splits)

lemma initialize_loop_exit:
  assumes "\<not> exit_requested st"
    and "initialize_bring_up env st = Proceed s1 st1"
    and "run_up_ipv6 env st1 = Some (s2, st2)"
    and "initialize_take_down env s2 st2 = Proceed s3 st3"
    and "initialize_stop_services env (s3, st3) = (s4, st4)"
    and "exit_requested st4"
  shows "initialize_loop env s0 st = Some (s4, st4)"
proof -
  have "initialize_loop env s0 st = initialize_loop env s4 st4"
    using assms
    by (subst initialize_loop.simps)
      (simp add: initialize_pass_def initialize_backoff_def)
  also have "\<dots> = Some (s4, st4)"
    using assms(6) by (subst initialize_loop.simps) simp
  finally show ?thesis .
qed

lemma initialize_bring_up_Proceed:
  "initialize_bring_up env st = Proceed s st' \<Longrightarrow> exit_requested st' = exit_requested st"
  by (auto simp: initialize_bring_up_def invoke_def split: if_splits)

lemma initialize_loop_retry:
  assumes "\<not> exit_requested st"
    and "initialize_bring_up env st = Proceed sa sta"
    and "run_up_ipv6 env sta = Some (sb, stb)"
    and "\<not> exit_requested stb"
    and "initialize_take_down env sb stb = Proceed sc stc"
    and "services_stop env stc"
  shows "initialize_loop env sz st = initialize_loop env sb (next_pass_state env stc)"
proof -
  have ec: "sc = sb" "\<not> exit_requested stc"
    using assms(4,5) initialize_take_down_Proceed [of env sb stb sc stc] by simp_all
  have stop: "initialize_stop_services env (sc, stc) =
    (sc, stc\<lparr>calls := calls stc @ [Stop_chrony, Stop_unbound]\<rparr>)"
    using assms(6) by (simp add: initialize_stop_services_def invoke_def services_stop_def)
  show ?thesis
    using assms(1-3,5) ec stop
    by (subst initialize_loop.simps)
      (simp add: initialize_pass_def initialize_backoff_def invoke_def next_pass_state_def)
qed

lemma run_up_ipv6_start_failure:
  assumes "r_status (env (calls st) (Wds_initialize V6)) = 0"
    and "mm_start_session env PROFILE_3GPP_VZWINTERNET V6 (after (Wds_initialize V6) st) =
      (status, st')"
    and "status \<noteq> eQCWWAN_ERR_NONE"
  shows "run_up_ipv6 env st = Some (wds_shutdown_at_return env V6 (status, st'))"
  using assms by (simp add: run_up_ipv6_def invoke_def after_def)

lemma run_up_ipv4_start_failure:
  assumes "r_status (env (calls st) (Wds_initialize V4)) = 0"
    and "mm_start_session env PROFILE_3GPP_VZWINTERNET V4 (after (Wds_initialize V4) st) =
      (status, st')"
    and "status \<noteq> eQCWWAN_ERR_NONE"
  shows "run_up_ipv4 env st = Some (wds_shutdown_at_return env V4 (status, st'))"
  using assms by (simp add: run_up_ipv4_def invoke_def after_def)

lemma run_up_ipv6_v4_start_failure:
  assumes "r_status (env (calls st) (Wds_initialize V6)) = 0"
    and "mm_start_session env PROFILE_3GPP_VZWINTERNET V6 (after (Wds_initialize V6) st) =
      (eQCWWAN_ERR_NONE, stv)"
    and "v6_settings_applied env stv"
    and "r_status (env (calls stv @
        [Wds_get_runtime_settings V6, Apply_ipv6_runtime_settings False])
        (Wds_initialize V4)) = 0"
    and "mm_start_session env PROFILE_3GPP_VZWINTERNET V4
        (after_all [Wds_get_runtime_settings V6, Apply_ipv6_runtime_settings False,
           Wds_initialize V4] stv) = (status, st')"
    and "status \<noteq> eQCWWAN_ERR_NONE"
  shows "run_up_ipv6 env st =
    Some (wds_shutdown_at_return env V6 (stop_data_session_at_teardown env V6
      (wds_shutdown_at_return env V4 (status, st'))))"
proof -
  let ?stq = "after_all [Wds_get_runtime_settings V6, Apply_ipv6_runtime_settings False] stv"
  have q: "after (Wds_initialize V4) ?stq =
    after_all [Wds_get_runtime_settings V6, Apply_ipv6_runtime_settings False,
      Wds_initialize V4] stv"
    by (simp add: after_def after_all_def)
  have "run_up_ipv4 env ?stq = Some (wds_shutdown_at_return env V4 (status, st'))"
    using assms(4-6) by (intro run_up_ipv4_start_failure) (simp_all add: q, simp add: after_all_def)
  moreover have "run_up_ipv6_started env stv = run_up_ipv4 env ?stq"
    using assms(3)
    by (simp add: run_up_ipv6_started_def v6_settings_applied_def invoke_def after_all_def)
  ultimately show ?thesis
    using assms(1,2) by (simp add: run_up_ipv6_def invoke_def after_def)
qed

lemma wds_shutdown_at_return_ok:
  "r_status (env (calls st) (Wds_shutdown fam)) = 0 \<Longrightarrow>
   wds_shutdown_at_return env fam (status, st) = (status, after (Wds_shutdown fam) st)"
  by (simp add: wds_shutdown_at_return_def invoke_def after_def)

lemma stop_data_session_at_teardown_ok:
  "r_status (env (calls st) (Wds_stop_data_session fam)) = eQCWWAN_ERR_NONE \<or>
   r_status (env (calls st) (Wds_stop_data_session fam)) = eQCWWAN_ERR_QMI_NO_EFFECT \<Longrightarrow>
   stop_data_session_at_teardown env fam (status, st) =
     (status, after (Wds_stop_data_session fam) st)"
  by (auto simp: stop_data_session_at_teardown_def invoke_def after_def Let_def)

text \<open>
  C5.  A start of a session fails when setting the IP family preference or starting the
  data session fails.  The failure itself never sets \<open>exit_requested\<close>: when the start of
  the IPv6 session fails, \<open>run_up_ipv6\<close> goes straight to the shutdown of the WDS service
  object and returns; when the start of the IPv4 session fails, \<open>run_up_ipv4\<close> does the
  same and \<open>run_up_ipv6\<close>, which called it, goes on to the stop of the IPv6 session and
  the shutdown of its service object.  What is returned is exactly what these cleanup
  steps make of the failure's status and of the flag as it was; when they succeed (a stop
  may answer "no effect"), the status of the failure is returned and \<open>exit_requested\<close> is
  as it was before.  In the outer loop, a pass in which the start of either session fails
  and the cleanup succeeds, with the flag clear at its beginning, goes through the stop of
  the services and the 10 seconds' pause into the next pass of the loop, with the flag set
  only by an interrupt during the pause.
\<close>

theorem C5_start_failure_is_retried:
  "(fst (mm_start_session env p fam st) \<noteq> eQCWWAN_ERR_NONE \<longleftrightarrow>
      r_status (env (calls st) (Wds_set_ip_family_preference fam)) \<noteq> 0 \<or>
      r_status (env (calls st @ [Wds_set_ip_family_preference fam])
         (Wds_start_data_session fam p)) \<noteq> 0) \<and>
   exit_requested (snd (mm_start_session env p fam st)) = exit_requested st \<and>
   (r_status (env (calls st) (Wds_initialize V6)) = 0 \<and>
    mm_start_session env PROFILE_3GPP_VZWINTERNET V6 (after (Wds_initialize V6) st) =
      (status, st') \<and> status \<noteq> eQCWWAN_ERR_NONE \<longrightarrow>
      exit_requested st' = exit_requested st \<and>
      run_up_ipv6 env st =
        Some (if r_status (env (calls st') (Wds_shutdown V6)) \<noteq> 0
              then (r_status (env (calls st') (Wds_shutdown V6)),
                    (after (Wds_shutdown V6) st')\<lparr>exit_requested := True\<rparr>)
              else (status, after (Wds_shutdown V6) st'))) \<and>
   (r_status (env (calls st) (Wds_initialize V4)) = 0 \<and>
    mm_start_session env PROFILE_3GPP_VZWINTERNET V4 (after (Wds_initialize V4) st) =
      (status, st') \<and> status \<noteq> eQCWWAN_ERR_NONE \<longrightarrow>
      exit_requested st' = exit_requested st \<and>
      run_up_ipv4 env st =
        Some (if r_status (env (calls st') (Wds_shutdown V4)) \<noteq> 0
              then (r_status (env (calls st') (Wds_shutdown V4)),
                    (after (Wds_shutdown V4) st')\<lparr>exit_requested := True\<rparr>)
              else (status, after (Wds_shutdown V4) st'))) \<and>
   (r_status (env (calls st) (Wds_initialize V6)) = 0 \<and>
    mm_start_session env PROFILE_3GPP_VZWINTERNET V6 (after (Wds_initialize V6) st) =
      (eQCWWAN_ERR_NONE, stv) \<and>
    v6_settings_applied env stv \<and>
    r_status (env (calls stv @
        [Wds_get_runtime_settings V6, Apply_ipv6_runtime_settings False])
        (Wds_initialize V4)) = 0 \<and>
    mm_start_session env PROFILE_3GPP_VZWINTERNET V4
        (after_all [Wds_get_runtime_settings V6, Apply_ipv6_runtime_settings False,
           Wds_initialize V4] stv) = (status, st') \<and>
    status \<noteq> eQCWWAN_ERR_NONE \<longrightarrow>
      exit_requested st' = exit_requested st \<and>
      run_up_ipv6 env st =
        Some (wds_shutdown_at_return env V6 (stop_data_session_at_teardown env V6
          (wds_shutdown_at_return env V4 (status, st')))) \<and>
      (r_status (env (calls st') (Wds_shutdown V4)) = 0 \<and>
       (r_status (env (calls st' @ [Wds_shutdown V4]) (Wds_stop_data_session V6)) =
          eQCWWAN_ERR_NONE \<or>
        r_status (env (calls st' @ [Wds_shutdown V4]) (Wds_stop_data_session V6)) =
          eQCWWAN_ERR_QMI_NO_EFFECT) \<and>
       r_status (env (calls st' @ [Wds_shutdown V4, Wds_stop_data_session V6])
          (Wds_shutdown V6)) = 0 \<longrightarrow>
         run_up_ipv6 env st =
           Some (status,
             after_all [Wds_shutdown V4, Wds_stop_data_session V6, Wds_shutdown V6] st'))) \<and>
   (\<not> exit_requested st \<and> initialize_bring_up env st = Proceed sa sta \<and>
    r_status (env (calls sta) (Wds_initialize V6)) = 0 \<and>
    mm_start_session env PROFILE_3GPP_VZWINTERNET V6 (after (Wds_initialize V6) sta) =
      (status, st') \<and> status \<noteq> eQCWWAN_ERR_NONE \<and>
    r_status (env (calls st') (Wds_shutdown V6)) = 0 \<and>
    initialize_take_down env status (after (Wds_shutdown V6) st') = Proceed sc stc \<and>
    services_stop env stc \<longrightarrow>
      initialize_loop env sz st = initialize_loop env status (next_pass_state env stc) \<and>
      exit_requested (next_pass_state env stc) =
        r_sigint (env (calls stc @ [Stop_chrony, Stop_unbound]) (Sleep 10))) \<and>
   (\<not> exit_requested st \<and> initialize_bring_up env st = Proceed sa sta \<and>
    r_status (env (calls sta) (Wds_initialize V6)) = 0 \<and>
    mm_start_session env PROFILE_3GPP_VZWINTERNET V6 (after (Wds_initialize V6) sta) =
      (eQCWWAN_ERR_NONE, stv) \<and>
    v6_settings_applied env stv \<and>
    r_status (env (calls stv @
        [Wds_get_runtime_settings V6, Apply_ipv6_runtime_settings False])
        (Wds_initialize V4)) = 0 \<and>
    mm_start_session env PROFILE_3GPP_VZWINTERNET V4
        (after_all [Wds_get_runtime_settings V6, Apply_ipv6_runtime_settings False,
           Wds_initialize V4] stv) = (status, st') \<and>
    status \<noteq> eQCWWAN_ERR_NONE \<and>
    r_status (env (calls st') (Wds_shutdown V4)) = 0 \<and>
    (r_status (env (calls st' @ [Wds_shutdown V4]) (Wds_stop_data_session V6)) =
       eQCWWAN_ERR_NONE \<or>
     r_status (env (calls st' @ [Wds_shutdown V4]) (Wds_stop_data_session V6)) =
       eQCWWAN_ERR_QMI_NO_EFFECT) \<and>
    r_status (env (calls st' @ [Wds_shutdown V4, Wds_stop_data_session V6])
       (Wds_shutdown V6)) = 0 \<and>
    initialize_take_down env status
      (after_all [Wds_shutdown V4, Wds_stop_data_session V6, Wds_shutdown V6] st') =
      Proceed sc stc \<and>
    services_stop env stc \<longrightarrow>
      initialize_loop env sz st = initialize_loop env status (next_pass_state env stc) \<and>
      exit_requested (next_pass_state env stc) =
        r_sigint (env (calls stc @ [Stop_chrony, Stop_unbound]) (Sleep 10)))"
  (is "?iff \<and> ?keeps \<and> ?v6 \<and> ?v4 \<and> ?v4_in_v6 \<and> ?loop_v6 \<and> ?loop_v4")
proof (intro conjI)
  show ?iff
    by (simp add: mm_start_session_def invoke_def eQCWWAN_ERR_NONE_def split: prod.splits)
  show ?keeps
    by (rule mm_start_session_exit)
  show ?v6
  proof (intro impI conjI)
    assume a: "r_status (env (calls st) (Wds_initialize V6)) = 0 \<and>
      mm_start_session env PROFILE_3GPP_VZWINTERNET V6 (after (Wds_initialize V6) st) =
        (status, st') \<and> status \<noteq> eQCWWAN_ERR_NONE"
    show "exit_requested st' = exit_requested st"
      using a mm_start_session_exit [of env PROFILE_3GPP_VZWINTERNET V6
          "after (Wds_initialize V6) st"]
      by (simp add: after_def)
    show "run_up_ipv6 env st =
        Some (if r_status (env (calls st') (Wds_shutdown V6)) \<noteq> 0
              then (r_status (env (calls st') (Wds_shutdown V6)),
                    (after (Wds_shutdown V6) st')\<lparr>exit_requested := True\<rparr>)
              else (status, after (Wds_shutdown V6) st'))"
      using a
      by (simp add: run_up_ipv6_start_failure wds_shutdown_at_return_def invoke_def
          after_def Let_def)
  qed
  show ?v4
  proof (intro impI conjI)
    assume a: "r_status (env (calls st) (Wds_initialize V4)) = 0 \<and>
      mm_start_session env PROFILE_3GPP_VZWINTERNET V4 (after (Wds_initialize V4) st) =
        (status, st') \<and> status \<noteq> eQCWWAN_ERR_NONE"
    show "exit_requested st' = exit_requested st"
      using a mm_start_session_exit [of env PROFILE_3GPP_VZWINTERNET V4
          "after (Wds_initialize V4) st"]
      by (simp add: after_def)
    show "run_up_ipv4 env st =
        Some (if r_status (env (calls st') (Wds_shutdown V4)) \<noteq> 0
              then (r_status (env (calls st') (Wds_shutdown V4)),
                    (after (Wds_shutdown V4) st')\<lparr>exit_requested := True\<rparr>)
              else (status, after (Wds_shutdown V4) st'))"
      using a
      by (simp add: run_up_ipv4_start_failure wds_shutdown_at_return_def invoke_def
          after_def Let_def)
  qed
  show ?v4_in_v6
  proof (intro impI)
    assume a: "r_status (env (calls st) (Wds_initialize V6)) = 0 \<and>
      mm_start_session env PROFILE_3GPP_VZWINTERNET V6 (after (Wds_initialize V6) st) =
        (eQCWWAN_ERR_NONE, stv) \<and>
      v6_settings_applied env stv \<and>
      r_status (env (calls stv @
          [Wds_get_runtime_settings V6, Apply_ipv6_runtime_settings False])
          (Wds_initialize V4)) = 0 \<and>
      mm_start_session env PROFILE_3GPP_VZWINTERNET V4
          (after_all [Wds_get_runtime_settings V6, Apply_ipv6_runtime_settings False,
             Wds_initialize V4] stv) = (status, st') \<and>
      status \<noteq> eQCWWAN_ERR_NONE"
    have e1: "exit_requested stv = exit_requested st"
      using a mm_start_session_exit [of env PROFILE_3GPP_VZWINTERNET V6
          "after (Wds_initialize V6) st"]
      by (simp add: after_def)
    have e2: "exit_requested st' = exit_requested stv"
      using a mm_start_session_exit [of env PROFILE_3GPP_VZWINTERNET V4
          "after_all [Wds_get_runtime_settings V6, Apply_ipv6_runtime_settings False,
             Wds_initialize V4] stv"]
      by (simp add: after_all_def)
    have r: "run_up_ipv6 env st =
        Some (wds_shutdown_at_return env V6 (stop_data_session_at_teardown env V6
          (wds_shutdown_at_return env V4 (status, st'))))"
      by (rule run_up_ipv6_v4_start_failure) (use a in blast)+
    have c: "run_up_ipv6 env st =
           Some (status,
             after_all [Wds_shutdown V4, Wds_stop_data_session V6, Wds_shutdown V6] st')"
      if "r_status (env (calls st') (Wds_shutdown V4)) = 0 \<and>
       (r_status (env (calls st' @ [Wds_shutdown V4]) (Wds_stop_data_session V6)) =
          eQCWWAN_ERR_NONE \<or>
        r_status (env (calls st' @ [Wds_shutdown V4]) (Wds_stop_data_session V6)) =
          eQCWWAN_ERR_QMI_NO_EFFECT) \<and>
       r_status (env (calls st' @ [Wds_shutdown V4, Wds_stop_data_session V6])
          (Wds_shutdown V6)) = 0"
      using that
      by (simp add: r wds_shutdown_at_return_ok stop_data_session_at_teardown_ok after_def
          after_all_def)
    from e1 e2 r c
    show "exit_requested st' = exit_requested st \<and>
      run_up_ipv6 env st =
        Some (wds_shutdown_at_return env V6 (stop_data_session_at_teardown env V6
          (wds_shutdown_at_return env V4 (status, st')))) \<and>
      (r_status (env (calls st') (Wds_shutdown V4)) = 0 \<and>
       (r_status (env (calls st' @ [Wds_shutdown V4]) (Wds_stop_data_session V6)) =
          eQCWWAN_ERR_NONE \<or>
        r_status (env (calls st' @ [Wds_shutdown V4]) (Wds_stop_data_session V6)) =
          eQCWWAN_ERR_QMI_NO_EFFECT) \<and>
       r_status (env (calls st' @ [Wds_shutdown V4, Wds_stop_data_session V6])
          (Wds_shutdown V6)) = 0 \<longrightarrow>
         run_up_ipv6 env st =
           Some (status,
             after_all [Wds_shutdown V4, Wds_stop_data_session V6, Wds_shutdown V6] st'))"
      by blast
  qed
  show ?loop_v6
  proof (intro impI)
    assume a: "\<not> exit_requested st \<and> initialize_bring_up env st = Proceed sa sta \<and>
      r_status (env (calls sta) (Wds_initialize V6)) = 0 \<and>
      mm_start_session env PROFILE_3GPP_VZWINTERNET V6 (after (Wds_initialize V6) sta) =
        (status, st') \<and> status \<noteq> eQCWWAN_ERR_NONE \<and>
      r_status (env (calls st') (Wds_shutdown V6)) = 0 \<and>
      initialize_take_down env status (after (Wds_shutdown V6) st') = Proceed sc stc \<and>
      services_stop env stc"
    have ea: "\<not> exit_requested sta"
      using a initialize_bring_up_Proceed [of env st sa sta] by simp
    have es: "exit_requested st' = exit_requested sta"
      using a mm_start_session_exit [of env PROFILE_3GPP_VZWINTERNET V6
          "after (Wds_initialize V6) sta"]
      by (simp add: after_def)
    have r: "run_up_ipv6 env sta = Some (status, after (Wds_shutdown V6) st')"
      using a by (simp add: run_up_ipv6_start_failure wds_shutdown_at_return_ok)
    have "initialize_loop env sz st = initialize_loop env status (next_pass_state env stc)"
      using a ea es r
      by (intro initialize_loop_retry [where sta = sta and stb = "after (Wds_shutdown V6) st'"])
        (simp_all add: after_def)
    then show "initialize_loop env sz st =
        initialize_loop env status (next_pass_state env stc) \<and>
      exit_requested (next_pass_state env stc) =
        r_sigint (env (calls stc @ [Stop_chrony, Stop_unbound]) (Sleep 10))"
      by (simp add: next_pass_state_def)
  qed
  show ?loop_v4
  proof (intro impI)
    assume a: "\<not> exit_requested st \<and> initialize_bring_up env st = Proceed sa sta \<and>
      r_status (env (calls sta) (Wds_initialize V6)) = 0 \<and>
      mm_start_session env PROFILE_3GPP_VZWINTERNET V6 (after (Wds_initialize V6) sta) =
        (eQCWWAN_ERR_NONE, stv) \<and>
      v6_settings_applied env stv \<and>
      r_status (env (calls stv @
          [Wds_get_runtime_settings V6, Apply_ipv6_runtime_settings False])
          (Wds_initialize V4)) = 0 \<and>
      mm_start_session env PROFILE_3GPP_VZWINTERNET V4
          (after_all [Wds_get_runtime_settings V6, Apply_ipv6_runtime_settings False,
             Wds_initialize V4] stv) = (status, st') \<and>
      status \<noteq> eQCWWAN_ERR_NONE \<and>
      r_status (env (calls st') (Wds_shutdown V4)) = 0 \<and>
      (r_status (env (calls st' @ [Wds_shutdown V4]) (Wds_stop_data_session V6)) =
         eQCWWAN_ERR_NONE \<or>
       r_status (env (calls st' @ [Wds_shutdown V4]) (Wds_stop_data_session V6)) =
         eQCWWAN_ERR_QMI_NO_EFFECT) \<and>
      r_status (env (calls st' @ [Wds_shutdown V4, Wds_stop_data_session V6])
         (Wds_shutdown V6)) = 0 \<and>
      initialize_take_down env status
        (after_all [Wds_shutdown V4, Wds_stop_data_session V6, Wds_shutdown V6] st') =
        Proceed sc stc \<and>
      services_stop env stc"
    have ea: "\<not> exit_requested sta"
      using a initialize_bring_up_Proceed [of env st sa sta] by simp
    have e1: "exit_requested stv = exit_requested sta"
      using a mm_start_session_exit [of env PROFILE_3GPP_VZWINTERNET V6
          "after (Wds_initialize V6) sta"]
      by (simp add: after_def)
    have e2: "exit_requested st' = exit_requested stv"
      using a mm_start_session_exit [of env PROFILE_3GPP_VZWINTERNET V4
          "after_all [Wds_get_runtime_settings V6, Apply_ipv6_runtime_settings False,
             Wds_initialize V4] stv"]
      by (simp add: after_all_def)
    have "run_up_ipv6 env sta =
        Some (wds_shutdown_at_return env V6 (stop_data_session_at_teardown env V6
          (wds_shutdown_at_return env V4 (status, st'))))"
      by (rule run_up_ipv6_v4_start_failure) (use a in blast)+
    then have r: "run_up_ipv6 env sta =
        Some (status,
          after_all [Wds_shutdown V4, Wds_stop_data_session V6, Wds_shutdown V6] st')"
      using a
      by (simp add: wds_shutdown_at_return_ok stop_data_session_at_teardown_ok after_def
          after_all_def)
    have "initialize_loop env sz st = initialize_loop env status (next_pass_state env stc)"
      using a ea e1 e2 r
      by (intro initialize_loop_retry [where sta = sta and
            stb = "after_all [Wds_shutdown V4, Wds_stop_data_session V6, Wds_shutdown V6] st'"])
        (simp_all add: after_all_def)
    then show "initialize_loop env sz st =
        initialize_loop env status (next_pass_state env stc) \<and>
      exit_requested (next_pass_state env stc) =
        r_sigint (env (calls stc @ [Stop_chrony, Stop_unbound]) (Sleep 10))"
      by (simp add: next_pass_state_def)
  qed
qed

lemma weak_v6_pass:
  assumes "\<not> exit_requested st"
  shows "initialize_pass (weak_signal_env V6) st =
    Some (Proceed 1014
      (st\<lparr>calls := calls st @ pass_calls failed_v6_start_calls @ [Sleep 10],
          exit_requested := (Sleep 10 \<in> set (calls st))\<rparr>))"
  using assms
  by (simp add: supervisor_defs weak_signal_env_def ok_reply_def pass_calls_def
      failed_v6_start_calls_def)

lemma weak_v4_pass:
  assumes "\<not> exit_requested st"
  shows "initialize_pass (weak_signal_env V4) st =
    Some (Proceed 1014
      (st\<lparr>calls := calls st @ pass_calls failed_v4_session_calls @ [Sleep 10],
          exit_requested := (Sleep 10 \<in> set (calls st))\<rparr>))"
  using assms
  by (simp add: supervisor_defs weak_signal_env_def ok_reply_def pass_calls_def
      failed_v4_session_calls_def)

text \<open>
  With a signal too weak for IPv6, \<open>run_up_ipv6\<close> returns 1014 without
  \<open>exit_requested\<close>; with a signal too weak for IPv4, so do \<open>run_up_ipv4\<close> and the
  \<open>run_up_ipv6\<close> around it; and in both cases the outer loop makes a second pass after
  the pause, until the interrupt ends it.
\<close>

theorem C5_start_failure_is_retried_witness:
  "run_up_ipv6 (weak_signal_env V6) start_state =
     Some (1014, \<lparr>exit_requested = False, calls = failed_v6_start_calls\<rparr>) \<and>
   run_up_ipv4 (weak_signal_env V4) start_state =
     Some (1014, \<lparr>exit_requested = False, calls = failed_v4_start_calls\<rparr>) \<and>
   run_up_ipv6 (weak_signal_env V4) start_state =
     Some (1014, \<lparr>exit_requested = False, calls = failed_v4_session_calls\<rparr>) \<and>
   initialize_loop (weak_signal_env V6) 0 start_state =
     Some (1014, \<lparr>exit_requested = True,
        calls = pass_calls failed_v6_start_calls @ [Sleep 10] @
                pass_calls failed_v6_start_calls @ [Sleep 10]\<rparr>) \<and>
   initialize_loop (weak_signal_env V4) 0 start_state =
     Some (1014, \<lparr>exit_requested = True,
        calls = pass_calls failed_v4_session_calls @ [Sleep 10] @
                pass_calls failed_v4_session_calls @ [Sleep 10]\<rparr>)"
proof (intro conjI)
  let ?w6 = "weak_signal_env V6"
  let ?w4 = "weak_signal_env V4"
  let ?up = "\<lparr>exit_requested = False, calls = take 7 (pass_calls [])\<rparr>"
  let ?s6 = "\<lambda>cs. \<lparr>exit_requested = False,
    calls = cs @ [Wds_initialize V6, Wds_set_ip_family_preference V6,
      Wds_start_data_session V6 3]\<rparr>"
  let ?s4 = "\<lambda>cs. \<lparr>exit_requested = False,
    calls = cs @ [Wds_initialize V4, Wds_set_ip_family_preference V4,
      Wds_start_data_session V4 3]\<rparr>"
  let ?q = "\<lambda>cs. cs @ [Wds_initialize V6, Wds_set_ip_family_preference V6,
      Wds_start_data_session V6 3, Wds_get_runtime_settings V6,
      Apply_ipv6_runtime_settings False]"
  have start6: "mm_start_session ?w6 PROFILE_3GPP_VZWINTERNET V6
      (after (Wds_initialize V6) \<lparr>exit_requested = False, calls = cs\<rparr>) = (1014, ?s6 cs)" for cs
    by (simp add: mm_start_session_def invoke_def after_def weak_signal_env_def ok_reply_def
        PROFILE_3GPP_VZWINTERNET_def)
  have start4: "mm_start_session ?w4 PROFILE_3GPP_VZWINTERNET V4
      (after (Wds_initialize V4) \<lparr>exit_requested = False, calls = cs\<rparr>) = (1014, ?s4 cs)" for cs
    by (simp add: mm_start_session_def invoke_def after_def weak_signal_env_def ok_reply_def
        PROFILE_3GPP_VZWINTERNET_def)
  have start64: "mm_start_session ?w4 PROFILE_3GPP_VZWINTERNET V6
      (after (Wds_initialize V6) \<lparr>exit_requested = False, calls = cs\<rparr>) =
      (eQCWWAN_ERR_NONE, ?s6 cs)" for cs
    by (simp add: mm_start_session_def invoke_def after_def weak_signal_env_def ok_reply_def
        PROFILE_3GPP_VZWINTERNET_def)
  have start44: "mm_start_session ?w4 PROFILE_3GPP_VZWINTERNET V4
      (after_all [Wds_get_runtime_settings V6, Apply_ipv6_runtime_settings False,
         Wds_initialize V4] (?s6 cs)) = (1014, ?s4 (?q cs))" for cs
    by (simp add: mm_start_session_def invoke_def after_all_def weak_signal_env_def ok_reply_def
        PROFILE_3GPP_VZWINTERNET_def)
  from C5_start_failure_is_retried [where env = ?w6 and st = start_state and status = 1014
      and st' = "?s6 []", THEN conjunct2, THEN conjunct2, THEN conjunct1]
    start6 [of "[]"]
  show "run_up_ipv6 ?w6 start_state =
     Some (1014, \<lparr>exit_requested = False, calls = failed_v6_start_calls\<rparr>)"
    by (simp add: weak_signal_env_def ok_reply_def start_state_def after_def
        failed_v6_start_calls_def eQCWWAN_ERR_NONE_def)
  from C5_start_failure_is_retried [where env = ?w4 and st = start_state and status = 1014
      and st' = "?s4 []", THEN conjunct2, THEN conjunct2, THEN conjunct2, THEN conjunct1]
    start4 [of "[]"]
  show "run_up_ipv4 ?w4 start_state =
     Some (1014, \<lparr>exit_requested = False, calls = failed_v4_start_calls\<rparr>)"
    by (simp add: weak_signal_env_def ok_reply_def start_state_def after_def
        failed_v4_start_calls_def eQCWWAN_ERR_NONE_def)
  from C5_start_failure_is_retried [where env = ?w4 and st = start_state and status = 1014
      and stv = "?s6 []" and st' = "?s4 (?q [])",
      THEN conjunct2, THEN conjunct2, THEN conjunct2, THEN conjunct2, THEN conjunct1]
    start64 [of "[]"] start44 [of "[]"]
  show "run_up_ipv6 ?w4 start_state =
     Some (1014, \<lparr>exit_requested = False, calls = failed_v4_session_calls\<rparr>)"
    by (simp add: weak_signal_env_def ok_reply_def start_state_def after_all_def
        v6_settings_applied_def failed_v4_session_calls_def eQCWWAN_ERR_NONE_def
        eQCWWAN_ERR_QMI_NO_EFFECT_def wds_shutdown_at_return_def
        stop_data_session_at_teardown_def invoke_def)
  have up6: "initialize_bring_up ?w6 start_state = Proceed 0 ?up"
    by (simp add: initialize_bring_up_def invoke_def weak_signal_env_def start_state_def
        ok_reply_def pass_calls_def eQCWWAN_ERR_NONE_def MM_DMS_OPERATION_MODE_ONLINE_def)
  have up4: "initialize_bring_up ?w4 start_state = Proceed 0 ?up"
    by (simp add: initialize_bring_up_def invoke_def weak_signal_env_def start_state_def
        ok_reply_def pass_calls_def eQCWWAN_ERR_NONE_def MM_DMS_OPERATION_MODE_ONLINE_def)
  let ?d6 = "\<lparr>exit_requested = False, calls = take 15 (pass_calls failed_v6_start_calls)\<rparr>"
  let ?d4 = "\<lparr>exit_requested = False, calls = take 22 (pass_calls failed_v4_session_calls)\<rparr>"
  have down6: "initialize_take_down ?w6 1014
      (after (Wds_shutdown V6) (?s6 (take 7 (pass_calls [])))) = Proceed 1014 ?d6"
    by (simp add: initialize_take_down_def invoke_def after_def weak_signal_env_def
        ok_reply_def pass_calls_def failed_v6_start_calls_def eQCWWAN_ERR_NONE_def)
  have down4: "initialize_take_down ?w4 1014
      (after_all [Wds_shutdown V4, Wds_stop_data_session V6, Wds_shutdown V6]
        (?s4 (?q (take 7 (pass_calls []))))) = Proceed 1014 ?d4"
    by (simp add: initialize_take_down_def invoke_def after_all_def weak_signal_env_def
        ok_reply_def pass_calls_def failed_v4_session_calls_def eQCWWAN_ERR_NONE_def)
  let ?n6 = "\<lparr>exit_requested = False, calls = pass_calls failed_v6_start_calls @ [Sleep 10]\<rparr>"
  let ?n4 = "\<lparr>exit_requested = False,
    calls = pass_calls failed_v4_session_calls @ [Sleep 10]\<rparr>"
  have next6: "next_pass_state ?w6 ?d6 = ?n6"
    by (simp add: next_pass_state_def weak_signal_env_def ok_reply_def pass_calls_def
        failed_v6_start_calls_def)
  have next4: "next_pass_state ?w4 ?d4 = ?n4"
    by (simp add: next_pass_state_def weak_signal_env_def ok_reply_def pass_calls_def
        failed_v4_session_calls_def)
  from C5_start_failure_is_retried [where env = ?w6 and st = start_state and sa = 0
      and sta = ?up and status = 1014 and st' = "?s6 (take 7 (pass_calls []))"
      and sc = 1014 and stc = ?d6 and sz = 0,
      THEN conjunct2, THEN conjunct2, THEN conjunct2, THEN conjunct2, THEN conjunct2,
      THEN conjunct1]
    up6 start6 [of "take 7 (pass_calls [])"] down6
  have "initialize_loop ?w6 0 start_state = initialize_loop ?w6 1014 (next_pass_state ?w6 ?d6)"
    by (simp add: start_state_def services_stop_def weak_signal_env_def ok_reply_def
        eQCWWAN_ERR_NONE_def)
  also have "\<dots> = initialize_loop ?w6 1014
      \<lparr>exit_requested = True, calls = pass_calls failed_v6_start_calls @ [Sleep 10] @
              pass_calls failed_v6_start_calls @ [Sleep 10]\<rparr>"
    unfolding next6 by (subst initialize_loop.simps) (simp add: weak_v6_pass)
  also have "\<dots> = Some (1014, \<lparr>exit_requested = True,
      calls = pass_calls failed_v6_start_calls @ [Sleep 10] @
              pass_calls failed_v6_start_calls @ [Sleep 10]\<rparr>)"
    by (subst initialize_loop.simps) simp
  finally show "initialize_loop ?w6 0 start_state =
     Some (1014, \<lparr>exit_requested = True,
        calls = pass_calls failed_v6_start_calls @ [Sleep 10] @
                pass_calls failed_v6_start_calls @ [Sleep 10]\<rparr>)" .
  from C5_start_failure_is_retried [where env = ?w4 and st = start_state and sa = 0
      and sta = ?up and status = 1014 and stv = "?s6 (take 7 (pass_calls []))"
      and st' = "?s4 (?q (take 7 (pass_calls [])))"
      and sc = 1014 and stc = ?d4 and sz = 0,
      THEN conjunct2, THEN conjunct2, THEN conjunct2, THEN conjunct2, THEN conjunct2,
      THEN conjunct2]
    up4 start64 [of "take 7 (pass_calls [])"] start44 [of "take 7 (pass_calls [])"] down4
  have "initialize_loop ?w4 0 start_state = initialize_loop ?w4 1014 (next_pass_state ?w4 ?d4)"
    by (simp add: start_state_def services_stop_def v6_settings_applied_def
        weak_signal_env_def ok_reply_def eQCWWAN_ERR_NONE_def eQCWWAN_ERR_QMI_NO_EFFECT_def)
  also have "\<dots> = initialize_loop ?w4 1014
      \<lparr>exit_requested = True, calls = pass_calls failed_v4_session_calls @ [Sleep 10] @
              pass_calls failed_v4_session_calls @ [Sleep 10]\<rparr>"
    unfolding next4 by (subst initialize_loop.simps) (simp add: weak_v4_pass)
  also have "\<dots> = Some (1014, \<lparr>exit_requested = True,
      calls = pass_calls failed_v4_session_calls @ [Sleep 10] @
              pass_calls failed_v4_session_calls @ [Sleep 10]\<rparr>)"
    by (subst initialize_loop.simps) simp
  finally show "initialize_loop ?w4 0 start_state =
     Some (1014, \<lparr>exit_requested = True,
        calls = pass_calls failed_v4_session_calls @ [Sleep 10] @
                pass_calls failed_v4_session_calls @ [Sleep 10]\<rparr>)" .
qed

text \<open>
  C6.  In a pass of the outer loop that has come to the stop of the services after the
  host is taken down: when the stop of chrony or the stop of unbound fails, both stops
  have been asked for, \<open>exit_requested\<close> is set, there is no pause and no further pass,
  and \<open>initialize\<close>'s loop returns the status of the failed stop (of unbound's when both
  fail).
\<close>

theorem C6_teardown_stop_failure:
  assumes "\<not> exit_requested st"
    and "initialize_bring_up env st = Proceed sa sta"
    and "run_up_ipv6 env sta = Some (sb, stb)"
    and "initialize_take_down env sb stb = Proceed sc stc"
    and "r_status (env (calls stc) (Sdbus_manage_service ''StopUnit'' ''chrony.service'')) \<noteq> 0 \<or>
      r_status (env (calls stc @ [Sdbus_manage_service ''StopUnit'' ''chrony.service''])
        (Sdbus_manage_service ''StopUnit'' ''unbound.service'')) \<noteq> 0"
  shows "\<exists>s' st'. initialize_loop env sz st = Some (s', st') \<and> exit_requested st' \<and>
    s' \<noteq> 0 \<and>
    s' = (if r_status (env (calls stc @ [Sdbus_manage_service ''StopUnit'' ''chrony.service''])
              (Sdbus_manage_service ''StopUnit'' ''unbound.service'')) \<noteq> 0
          then r_status (env (calls stc @ [Sdbus_manage_service ''StopUnit'' ''chrony.service''])
              (Sdbus_manage_service ''StopUnit'' ''unbound.service''))
          else r_status (env (calls stc)
              (Sdbus_manage_service ''StopUnit'' ''chrony.service''))) \<and>
    calls st' = calls stc @ [Sdbus_manage_service ''StopUnit'' ''chrony.service'',
                             Sdbus_manage_service ''StopUnit'' ''unbound.service'']"
proof -
  obtain sd std where stop: "initialize_stop_services env (sc, stc) = (sd, std)"
    by (cases "initialize_stop_services env (sc, stc)") auto
  have p: "exit_requested std \<and> sd \<noteq> 0 \<and>
    sd = (if r_status (env (calls stc @ [Sdbus_manage_service ''StopUnit'' ''chrony.service''])
              (Sdbus_manage_service ''StopUnit'' ''unbound.service'')) \<noteq> 0
          then r_status (env (calls stc @ [Sdbus_manage_service ''StopUnit'' ''chrony.service''])
              (Sdbus_manage_service ''StopUnit'' ''unbound.service''))
          else r_status (env (calls stc)
              (Sdbus_manage_service ''StopUnit'' ''chrony.service''))) \<and>
    calls std = calls stc @ [Sdbus_manage_service ''StopUnit'' ''chrony.service'',
                             Sdbus_manage_service ''StopUnit'' ''unbound.service'']"
    using stop assms(5)
    by (auto simp: initialize_stop_services_def invoke_def split: if_splits)
  have "initialize_loop env sz st = Some (sd, std)"
    using assms(1-4) stop p by (intro initialize_loop_exit) auto
  with p show ?thesis by blast
qed

text \<open>
  A full pass with a session that the peer ends, after which the service bus fails to stop
  unbound: the loop ends with status -1 and \<open>exit_requested\<close> after the calls of that
  one pass.
\<close>

theorem C6_teardown_stop_failure_witness:
  "initialize_loop broken_bus_env 0 start_state =
     Some (- 1, \<lparr>exit_requested = True, calls = pass_calls monitored_session_calls\<rparr>)"
proof -
  let ?env = "broken_bus_env"
  let ?st1 = "\<lparr>exit_requested = False, calls = take 7 (pass_calls [])\<rparr>"
  let ?st2 = "\<lparr>exit_requested = False,
    calls = take 7 (pass_calls []) @ monitored_session_calls\<rparr>"
  let ?st3 = "\<lparr>exit_requested = False, calls = take 31 (pass_calls monitored_session_calls)\<rparr>"
  have 1: "initialize_bring_up ?env start_state = Proceed 0 ?st1"
    by (simp add: initialize_bring_up_def invoke_def broken_bus_env_def start_state_def
        ok_reply_def pass_calls_def eQCWWAN_ERR_NONE_def MM_DMS_OPERATION_MODE_ONLINE_def)
  have 2: "run_up_ipv6 ?env ?st1 = Some (0, ?st2)"
    by (simp add: supervisor_defs run_sessions_up.simps broken_bus_env_def ok_reply_def
        pass_calls_def monitored_session_calls_def)
  have 3: "initialize_take_down ?env 0 ?st2 = Proceed 0 ?st3"
    by (simp add: initialize_take_down_def invoke_def broken_bus_env_def
        ok_reply_def pass_calls_def monitored_session_calls_def eQCWWAN_ERR_NONE_def)
  from C6_teardown_stop_failure [of start_state ?env 0 ?st1 0 ?st2 0 ?st3 0] 1 2 3
  obtain s' st' where "initialize_loop ?env 0 start_state = Some (s', st')"
    "exit_requested st'" "s' = - 1" "calls st' = pass_calls monitored_session_calls"
    by (auto simp add: start_state_def broken_bus_env_def ok_reply_def pass_calls_def
        monitored_session_calls_def)
  then show ?thesis
    by (cases st') simp
qed

text \<open>
  C7.  At the stop of a data session on the way out of \<open>run_up_ipv4\<close> and of
  \<open>run_up_ipv6\<close>: a stop that answers "no effect" (or success) leaves the status and
  \<open>exit_requested\<close> as they were; a stop that answers any other error sets
  \<open>exit_requested\<close> and makes its error the status.  Both functions pass through this
  stop, followed by the shutdown of the service object, whenever their session was
  started.
\<close>

theorem C7_no_effect_is_tolerated:
  "(r_status (env (calls st) (Wds_stop_data_session fam)) = eQCWWAN_ERR_QMI_NO_EFFECT \<or>
    r_status (env (calls st) (Wds_stop_data_session fam)) = eQCWWAN_ERR_NONE \<longrightarrow>
      stop_data_session_at_teardown env fam (status, st) =
        (status, st\<lparr>calls := calls st @ [Wds_stop_data_session fam]\<rparr>)) \<and>
   (r_status (env (calls st) (Wds_stop_data_session fam)) \<noteq> eQCWWAN_ERR_QMI_NO_EFFECT \<and>
    r_status (env (calls st) (Wds_stop_data_session fam)) \<noteq> eQCWWAN_ERR_NONE \<longrightarrow>
      stop_data_session_at_teardown env fam (status, st) =
        (r_status (env (calls st) (Wds_stop_data_session fam)),
         st\<lparr>calls := calls st @ [Wds_stop_data_session fam], exit_requested := True\<rparr>)) \<and>
   (r_status (env (calls st) (Wds_initialize V4)) = 0 \<and>
    mm_start_session env PROFILE_3GPP_VZWINTERNET V4 (after (Wds_initialize V4) st) =
      (eQCWWAN_ERR_NONE, st') \<longrightarrow>
      run_up_ipv4 env st =
        map_option (wds_shutdown_at_return env V4 \<circ> stop_data_session_at_teardown env V4)
          (run_up_ipv4_started env st')) \<and>
   (r_status (env (calls st) (Wds_initialize V6)) = 0 \<and>
    mm_start_session env PROFILE_3GPP_VZWINTERNET V6 (after (Wds_initialize V6) st) =
      (eQCWWAN_ERR_NONE, st') \<longrightarrow>
      run_up_ipv6 env st =
        map_option (wds_shutdown_at_return env V6 \<circ> stop_data_session_at_teardown env V6)
          (run_up_ipv6_started env st'))"
  by (auto simp: stop_data_session_at_teardown_def invoke_def Let_def run_up_ipv4_def
      run_up_ipv6_def after_def split: option.splits)

text \<open>
  A session that is gone when it is stopped: "no effect" from the IPv4 stop leaves status 0
  and the flag clear; error 1001 from the IPv6 stop becomes the status and sets the flag;
  and a whole run of \<open>run_up_ipv6\<close> in which both stops answer "no effect" returns 0
  with the flag clear.
\<close>

theorem C7_no_effect_is_tolerated_witness:
  "stop_data_session_at_teardown (stop_answer_env eQCWWAN_ERR_QMI_NO_EFFECT) V4
      (0, start_state) =
     (0, \<lparr>exit_requested = False, calls = [Wds_stop_data_session V4]\<rparr>) \<and>
   stop_data_session_at_teardown (stop_answer_env 1001) V6 (0, start_state) =
     (1001, \<lparr>exit_requested = True, calls = [Wds_stop_data_session V6]\<rparr>) \<and>
   run_up_ipv6 (stop_answer_env eQCWWAN_ERR_QMI_NO_EFFECT) start_state =
     Some (0, \<lparr>exit_requested = False, calls = monitored_session_calls\<rparr>)"
proof (intro conjI)
  from C7_no_effect_is_tolerated [where env = "stop_answer_env eQCWWAN_ERR_QMI_NO_EFFECT"
      and st = start_state and fam = V4 and status = 0, THEN conjunct1]
  show "stop_data_session_at_teardown (stop_answer_env eQCWWAN_ERR_QMI_NO_EFFECT) V4
      (0, start_state) =
     (0, \<lparr>exit_requested = False, calls = [Wds_stop_data_session V4]\<rparr>)"
    by (simp add: stop_answer_env_def ok_reply_def start_state_def)
  from C7_no_effect_is_tolerated [where env = "stop_answer_env 1001"
      and st = start_state and fam = V6 and status = 0, THEN conjunct2, THEN conjunct1]
  show "stop_data_session_at_teardown (stop_answer_env 1001) V6 (0, start_state) =
     (1001, \<lparr>exit_requested = True, calls = [Wds_stop_data_session V6]\<rparr>)"
    by (simp add: stop_answer_env_def ok_reply_def start_state_def
        eQCWWAN_ERR_QMI_NO_EFFECT_def eQCWWAN_ERR_NONE_def)
  let ?env = "stop_answer_env eQCWWAN_ERR_QMI_NO_EFFECT"
  let ?v6 = "\<lparr>exit_requested = False,
    calls = [Wds_initialize V6, Wds_set_ip_family_preference V6, Wds_start_data_session V6 3]\<rparr>"
  have s: "mm_start_session ?env PROFILE_3GPP_VZWINTERNET V6 (after (Wds_initialize V6) start_state) =
      (eQCWWAN_ERR_NONE, ?v6)"
    by (simp add: mm_start_session_def invoke_def after_def stop_answer_env_def ok_reply_def
        start_state_def PROFILE_3GPP_VZWINTERNET_def)
  have r: "run_up_ipv6_started ?env ?v6 =
    Some (0, \<lparr>exit_requested = False, calls = take 18 monitored_session_calls\<rparr>)"
    by (simp add: supervisor_defs run_sessions_up.simps stop_answer_env_def ok_reply_def
        monitored_session_calls_def)
  from C7_no_effect_is_tolerated [where env = ?env and st = start_state and st' = ?v6,
      THEN conjunct2, THEN conjunct2, THEN conjunct2] s
  have "run_up_ipv6 ?env start_state =
        map_option (wds_shutdown_at_return ?env V6 \<circ> stop_data_session_at_teardown ?env V6)
          (run_up_ipv6_started ?env ?v6)"
    by (simp add: stop_answer_env_def ok_reply_def start_state_def)
  then have "run_up_ipv6 ?env start_state =
        map_option (wds_shutdown_at_return ?env V6 \<circ> stop_data_session_at_teardown ?env V6)
          (Some (0, \<lparr>exit_requested = False, calls = take 18 monitored_session_calls\<rparr>))"
    by (simp only: r)
  then show "run_up_ipv6 ?env start_state =
     Some (0, \<lparr>exit_requested = False, calls = monitored_session_calls\<rparr>)"
    by (simp add: stop_data_session_at_teardown_def wds_shutdown_at_return_def invoke_def
        stop_answer_env_def ok_reply_def monitored_session_calls_def
        eQCWWAN_ERR_QMI_NO_EFFECT_def eQCWWAN_ERR_NONE_def)
qed


end
